theory Spec2Isabelle
  imports Complex_Main "HOL-Library.Word" "HOL-Library.Log_Nat" "HOL-Library.Multiset"
begin

section \<open>Values of the host language\<close>

text \<open>
  A JavaScript number is a double. The model keeps the value \<open>NaN\<close> apart, because the
  source tests numbers for truthiness (\<open>||\<close>) and \<open>NaN\<close> and \<open>0\<close> are the two falsy
  numbers; every other number is \<open>Num r\<close> with \<open>r\<close> a real.

  \<open>null\<close> and \<open>undefined\<close> are both \<open>None\<close>: the resolvers below end every lookup in
  \<open>?? null\<close>, and the one test \<open>=== undefined\<close> is on a value that is never \<open>null\<close>.
\<close>

datatype number = NaN | Num real

subsection \<open>Double-precision arithmetic\<close>

text \<open>
  Every arithmetic operation of the source, and every decimal literal, gives the double
  nearest to the exact result, ties going to the even significand. \<open>binary64\<close> is that
  rounding: \<open>exponent a\<close> is the power of two at or below \<open>a\<close>, the significand has 53 bits.
  The range of the exponent is not bounded, so overflow to an infinity and the subnormal
  numbers are not represented; the samples of a typed array and the products and sums made of
  them are far from both.
\<close>

definition round_even :: "real \<Rightarrow> int" where
  "round_even r =
     (let f = \<lfloor>r\<rfloor>; d = r - real_of_int f
      in if d < 1 / 2 then f else if 1 / 2 < d then f + 1 else if even f then f else f + 1)"

definition exponent :: "real \<Rightarrow> int" where
  "exponent a = (if 1 \<le> a then bitlen \<lfloor>a\<rfloor> - 1 else - bitlen (\<lceil>1 / a\<rceil> - 1))"

definition binary64 :: "real \<Rightarrow> real" where
  "binary64 x =
     (if x = 0 then 0
      else (let a = \<bar>x\<bar>; u = 2 powi (exponent a - 52)
            in sgn x * (real_of_int (round_even (a / u)) * u)))"

definition double_add :: "real \<Rightarrow> real \<Rightarrow> real" where
  "double_add a b = binary64 (a + b)"

definition double_sub :: "real \<Rightarrow> real \<Rightarrow> real" where
  "double_sub a b = binary64 (a - b)"

definition double_mul :: "real \<Rightarrow> real \<Rightarrow> real" where
  "double_mul a b = binary64 (a * b)"

fun num_sub :: "number \<Rightarrow> number \<Rightarrow> number" where
  "num_sub (Num a) (Num b) = Num (double_sub a b)"
| "num_sub _ _ = NaN"

fun num_add :: "number \<Rightarrow> number \<Rightarrow> number" where
  "num_add (Num a) (Num b) = Num (double_add a b)"
| "num_add _ _ = NaN"

fun num_mul :: "number \<Rightarrow> number \<Rightarrow> number" where
  "num_mul (Num a) (Num b) = Num (double_mul a b)"
| "num_mul _ _ = NaN"

text \<open>Truthiness of \<open>string | null\<close> and of \<open>number | null\<close>.\<close>

fun truthy_string :: "string option \<Rightarrow> bool" where
  "truthy_string None = False"
| "truthy_string (Some s) = (s \<noteq> [])"

fun truthy_number :: "number option \<Rightarrow> bool" where
  "truthy_number None = False"
| "truthy_number (Some NaN) = False"
| "truthy_number (Some (Num r)) = (r \<noteq> 0)"

text \<open>\<open>a || b\<close> on the two types.\<close>

definition or_string :: "string option \<Rightarrow> string option \<Rightarrow> string option" where
  "or_string a b = (if truthy_string a then a else b)"

definition or_number :: "number option \<Rightarrow> number option \<Rightarrow> number option" where
  "or_number a b = (if truthy_number a then a else b)"

text \<open>\<open>xs[i]\<close> on an array: \<open>undefined\<close> outside the array.\<close>

definition at_index :: "'a list \<Rightarrow> int \<Rightarrow> 'a option" where
  "at_index xs i = (if 0 \<le> i \<and> i < int (length xs) then Some (xs ! nat i) else None)"

section \<open>The parsed data set\<close>

text \<open>
  The data set is the parser library's: a mapping from tags to elements, the backing bytes,
  and typed reads by tag. The typed reads are fields of the model, one per accessor the
  source calls; each returns \<open>None\<close> for \<open>undefined\<close>. An element of a sequence carries its
  items, and an item may carry a nested data set.
\<close>

type_synonym tag = string

type_synonym Fragment = "nat \<times> nat"

datatype DataSet = DataSet
  (elements: "tag \<Rightarrow> Element option")
  (byteArray: "8 word list")
  (string: "tag \<Rightarrow> string option")
  (floatString: "tag \<Rightarrow> number option")
  (intString: "tag \<Rightarrow> number option")
  (uint16: "tag \<Rightarrow> number option")
and Element = Element
  (dataOffset: nat)
  (length_el: nat)
  (items: "Item list option")
  (fragments: "Fragment list option")
  (basicOffsetTable: "nat list option")
and Item = Item
  (dataSet: "DataSet option")

section \<open>Attribute resolver\<close>

text \<open>
  The private methods of \<open>DicomParser\<close> keep their names without the leading underscore,
  and take the root data set as their first argument. The frame index is an integer.

  \<open>seq?.items && seq.items[index]?.dataSet\<close> is the data set of item \<open>index\<close> of a sequence.
\<close>

definition item_dataSet :: "Element option \<Rightarrow> int \<Rightarrow> DataSet option" where
  "item_dataSet el index =
     (case el of
        None \<Rightarrow> None
      | Some e \<Rightarrow>
          (case items e of
             None \<Rightarrow> None
           | Some its \<Rightarrow>
               (case at_index its index of
                  None \<Rightarrow> None
                | Some it \<Rightarrow> dataSet it)))"

definition findInGroupSequence :: "DataSet \<Rightarrow> tag \<Rightarrow> tag \<Rightarrow> int \<Rightarrow> DataSet option" where
  "findInGroupSequence ds sequence subsequence index =
     (case item_dataSet (elements ds sequence) index of
        None \<Rightarrow> None
      | Some functionalGroup \<Rightarrow> item_dataSet (elements functionalGroup subsequence) 0)"

definition findStringInGroupSequence ::
  "DataSet \<Rightarrow> tag \<Rightarrow> tag \<Rightarrow> tag \<Rightarrow> int \<Rightarrow> string option" where
  "findStringInGroupSequence ds sequence subsequence t index =
     (case findInGroupSequence ds sequence subsequence index of
        None \<Rightarrow> None
      | Some d \<Rightarrow> string d t)"

definition findStringInFrameGroupSequence ::
  "DataSet \<Rightarrow> tag \<Rightarrow> tag \<Rightarrow> int \<Rightarrow> string option" where
  "findStringInFrameGroupSequence ds subsequence t index =
     or_string (findStringInGroupSequence ds ''x52009229'' subsequence t 0)
               (findStringInGroupSequence ds ''x52009230'' subsequence t index)"

definition findStringInSequence :: "DataSet \<Rightarrow> tag \<Rightarrow> tag \<Rightarrow> string option" where
  "findStringInSequence ds sequenceTag t =
     (case item_dataSet (elements ds sequenceTag) 0 of
        None \<Rightarrow> None
      | Some d \<Rightarrow> string d t)"

definition findStringEverywhere :: "DataSet \<Rightarrow> tag \<Rightarrow> tag \<Rightarrow> int \<Rightarrow> string option" where
  "findStringEverywhere ds subsequence t index =
     (let targetString = findStringInFrameGroupSequence ds subsequence t index;
          targetString = (if \<not> truthy_string targetString
                          then findStringInSequence ds ''x00540022'' t
                          else targetString);
          targetString = (if \<not> truthy_string targetString
                          then string ds t
                          else targetString)
      in targetString)"

definition sopInstanceUID :: "DataSet \<Rightarrow> int \<Rightarrow> string option" where
  "sopInstanceUID ds frameIndex = findStringEverywhere ds ''x2005140f'' ''x00080018'' frameIndex"

definition findFloatStringInGroupSequence ::
  "DataSet \<Rightarrow> tag \<Rightarrow> tag \<Rightarrow> tag \<Rightarrow> int \<Rightarrow> number option" where
  "findFloatStringInGroupSequence ds sequence subsequence t index =
     (let dataInGroupSequence = floatString ds t in
      if dataInGroupSequence = None
      then (case findInGroupSequence ds sequence subsequence index of
              Some groupSequence \<Rightarrow> floatString groupSequence t
            | None \<Rightarrow> dataInGroupSequence)
      else dataInGroupSequence)"

definition findFloatStringInFrameGroupSequence ::
  "DataSet \<Rightarrow> tag \<Rightarrow> tag \<Rightarrow> int \<Rightarrow> number option" where
  "findFloatStringInFrameGroupSequence ds subsequence t index =
     or_number (findFloatStringInGroupSequence ds ''x52009229'' subsequence t 0)
               (findFloatStringInGroupSequence ds ''x52009230'' subsequence t index)"

definition rescaleIntercept :: "DataSet \<Rightarrow> int \<Rightarrow> number option" where
  "rescaleIntercept ds frameIndex =
     findFloatStringInFrameGroupSequence ds ''x00289145'' ''x00281052'' frameIndex"

definition rescaleSlope :: "DataSet \<Rightarrow> int \<Rightarrow> number option" where
  "rescaleSlope ds frameIndex =
     findFloatStringInFrameGroupSequence ds ''x00289145'' ''x00281053'' frameIndex"

definition windowCenter :: "DataSet \<Rightarrow> int \<Rightarrow> number option" where
  "windowCenter ds frameIndex =
     findFloatStringInFrameGroupSequence ds ''x00289132'' ''x00281050'' frameIndex"

definition windowWidth :: "DataSet \<Rightarrow> int \<Rightarrow> number option" where
  "windowWidth ds frameIndex =
     findFloatStringInFrameGroupSequence ds ''x00289132'' ''x00281051'' frameIndex"

definition referencedSegmentNumber :: "DataSet \<Rightarrow> int \<Rightarrow> number option" where
  "referencedSegmentNumber ds frameIndex =
     (case findInGroupSequence ds ''x52009230'' ''x0062000a'' frameIndex of
        Some referencedSegmentNumberElement \<Rightarrow> uint16 referencedSegmentNumberElement ''x0062000b''
      | None \<Rightarrow> Some (Num (-1)))"

section \<open>Pixel data\<close>

text \<open>
  The codec returns one of the nine typed arrays. An integer array holds machine words, read
  as signed or unsigned by its kind; the two floating-point kinds hold reals.
\<close>

datatype TypedArray =
    Int8Array "8 word list"
  | Uint8Array "8 word list"
  | Uint8ClampedArray "8 word list"
  | Int16Array "16 word list"
  | Uint16Array "16 word list"
  | Int32Array "32 word list"
  | Uint32Array "32 word list"
  | Float32Array "real list"
  | Float64Array "real list"

datatype error =
    TypeError
  | RangeError
  | UnsupportedTypedArray
  | PhotometricNotSupported "string option"
  | LibraryError string

datatype ImageInfo = ImageInfo
  (info_rows: "number option")
  (info_columns: "number option")
  (info_bitsAllocated: "number option")
  (info_samplesPerPixel: "number option")
  (info_signed: bool)

definition transferSyntaxUID :: "DataSet \<Rightarrow> string option" where
  "transferSyntaxUID ds = string ds ''x00020010''"

definition photometricInterpretation :: "DataSet \<Rightarrow> string option" where
  "photometricInterpretation ds = string ds ''x00280004''"

definition planarConfiguration :: "DataSet \<Rightarrow> number option" where
  "planarConfiguration ds = uint16 ds ''x00280006''"

definition samplesPerPixel :: "DataSet \<Rightarrow> number option" where
  "samplesPerPixel ds = uint16 ds ''x00280002''"

definition rows :: "DataSet \<Rightarrow> number option" where
  "rows ds = uint16 ds ''x00280010''"

definition columns :: "DataSet \<Rightarrow> number option" where
  "columns ds = uint16 ds ''x00280011''"

definition pixelRepresentation :: "DataSet \<Rightarrow> number option" where
  "pixelRepresentation ds = uint16 ds ''x00280103''"

definition bitsAllocated :: "DataSet \<Rightarrow> number option" where
  "bitsAllocated ds = uint16 ds ''x00280100''"

definition numberOfChannels :: "DataSet \<Rightarrow> nat" where
  "numberOfChannels ds =
     (let photometric = photometricInterpretation ds in
      if \<not> (photometric \<noteq> Some ''RGB'' \<and>
             photometric \<noteq> Some ''PALETTE COLOR'' \<and>
             photometric \<noteq> Some ''YBR_FULL'' \<and>
             photometric \<noteq> Some ''YBR_FULL_422'' \<and>
             photometric \<noteq> Some ''YBR_PARTIAL_422'' \<and>
             photometric \<noteq> Some ''YBR_PARTIAL_420'' \<and>
             photometric \<noteq> Some ''YBR_RCT'')
      then 3 else 1)"

subsection \<open>Decoding\<close>

text \<open>
  The codec is a parameter: it takes the bytes, the format hints and the transfer syntax, and
  returns the samples or fails. \<open>_decodePixelData\<close> hands it a view of the backing buffer, at
  the offset and of the length of the pixel data element; the byte array of the root data set
  covers the whole buffer, as the constructor builds it. Reading \<open>dataOffset\<close> of a missing
  element is a TypeError, a view past the end of the buffer a RangeError. The promise the
  source awaits is its result here, a rejection being the error.
\<close>

type_synonym codec = "8 word list \<Rightarrow> ImageInfo \<Rightarrow> string option \<Rightarrow> error + TypedArray"

definition decodePixelData :: "codec \<Rightarrow> DataSet \<Rightarrow> int \<Rightarrow> error + TypedArray" where
  "decodePixelData decode ds frameIndex =
     (let syntax = transferSyntaxUID ds in
      case elements ds ''x7fe00010'' of
        None \<Rightarrow> Inl TypeError
      | Some pixelDataElement \<Rightarrow>
          if dataOffset pixelDataElement + length_el pixelDataElement > length (byteArray ds)
          then Inl RangeError
          else
            (let pixelData = take (length_el pixelDataElement)
                               (drop (dataOffset pixelDataElement) (byteArray ds));
                 isSigned = (pixelRepresentation ds = Some (Num 1))
             in decode pixelData
                  (ImageInfo (rows ds) (columns ds) (bitsAllocated ds) (samplesPerPixel ds) isSigned)
                  syntax))"

subsection \<open>Encapsulated frames\<close>

text \<open>\<open>a !== b\<close> on \<open>number | undefined\<close>: \<open>NaN\<close> differs from everything, itself included.\<close>

fun strict_neq :: "number option \<Rightarrow> number option \<Rightarrow> bool" where
  "strict_neq None None = False"
| "strict_neq (Some (Num a)) (Some (Num b)) = (a \<noteq> b)"
| "strict_neq _ _ = True"

definition fragments_length :: "Element option \<Rightarrow> number option" where
  "fragments_length el =
     (case el of
        None \<Rightarrow> None
      | Some e \<Rightarrow> (case fragments e of None \<Rightarrow> None | Some fs \<Rightarrow> Some (Num (real (length fs)))))"

definition framesAreFragmented :: "DataSet \<Rightarrow> bool" where
  "framesAreFragmented ds =
     (let numberOfFrames = intString ds ''x00280008'';
          pixelDataElement = elements ds ''x7fe00010''
      in strict_neq numberOfFrames (fragments_length pixelDataElement))"

text \<open>
  The three readers of the parser library are parameters. Each receives the data set and the
  pixel data element as the source passes it, which may be missing.
\<close>

type_synonym frame_reader =
  "DataSet \<Rightarrow> Element option \<Rightarrow> int \<Rightarrow> nat list option \<Rightarrow> error + 8 word list"
type_synonym table_builder = "DataSet \<Rightarrow> Element option \<Rightarrow> error + nat list"
type_synonym fragment_reader = "DataSet \<Rightarrow> Element option \<Rightarrow> int \<Rightarrow> error + 8 word list"

definition getEncapsulatedImageFrame ::
  "frame_reader \<Rightarrow> table_builder \<Rightarrow> fragment_reader \<Rightarrow> DataSet \<Rightarrow> int \<Rightarrow> error + 8 word list"
where
  "getEncapsulatedImageFrame readEncapsulatedImageFrame createJPEGBasicOffsetTable
       readEncapsulatedPixelDataFromFragments ds frameIndex =
     (if (case elements ds ''x7fe00010'' of
            None \<Rightarrow> False
          | Some e \<Rightarrow> (case basicOffsetTable e of None \<Rightarrow> False | Some t \<Rightarrow> length t \<noteq> 0))
      then readEncapsulatedImageFrame ds (elements ds ''x7fe00010'') frameIndex None
      else if framesAreFragmented ds
      then (case createJPEGBasicOffsetTable ds (elements ds ''x7fe00010'') of
              Inl e \<Rightarrow> Inl e
            | Inr t \<Rightarrow> readEncapsulatedImageFrame ds (elements ds ''x7fe00010'') frameIndex (Some t))
      else readEncapsulatedPixelDataFromFragments ds (elements ds ''x7fe00010'') frameIndex)"

subsection \<open>Colour conversion\<close>

definition interpretAsRGB :: "string \<Rightarrow> bool" where
  "interpretAsRGB photometric =
     (let rgbLikeTypes = [''RGB'', ''YBR_RCT'', ''YBR_ICT'', ''YBR_FULL_422'']
      in photometric \<in> set rgbLikeTypes)"

text \<open>
  Reading a typed array at a numeric index gives \<open>undefined\<close> when the index is not an
  integer inside the array; writing outside the array does nothing (as \<open>xs[i := v]\<close> does);
  \<open>undefined\<close> and \<open>NaN\<close> are stored as \<open>0\<close>.
\<close>

definition element_at :: "'a list \<Rightarrow> real \<Rightarrow> 'a option" where
  "element_at xs x =
     (if real_of_int \<lfloor>x\<rfloor> = x \<and> 0 \<le> x \<and> x < real (length xs)
      then Some (xs ! nat \<lfloor>x\<rfloor>) else None)"

definition copied :: "'a::len word list \<Rightarrow> real \<Rightarrow> 'a word" where
  "copied xs x = (case element_at xs x of None \<Rightarrow> 0 | Some v \<Rightarrow> v)"

text \<open>
  The planar branch: \<open>numPixels\<close> is \<open>length / 3\<close> as a number, so with a length that is not
  a multiple of three the green and blue indices are not integers.
\<close>

function deinterleave_loop ::
  "'a::len word list \<Rightarrow> real \<Rightarrow> nat \<Rightarrow> nat \<Rightarrow> real \<Rightarrow> real \<Rightarrow> real \<Rightarrow> 'a word list \<Rightarrow> 'a word list"
where
  "deinterleave_loop uncompressedData numPixels i rgbaIndex rIndex gIndex bIndex rgbData =
     (if real i < numPixels
      then deinterleave_loop uncompressedData numPixels (i + 1) (rgbaIndex + 3)
             (rIndex + 1) (gIndex + 1) (bIndex + 1)
             (rgbData[rgbaIndex := copied uncompressedData rIndex,
                      rgbaIndex + 1 := copied uncompressedData gIndex,
                      rgbaIndex + 2 := copied uncompressedData bIndex])
      else rgbData)"
  by pat_completeness auto
termination
proof (relation "measure (\<lambda>(u, numPixels, i, r). nat \<lceil>numPixels\<rceil> - i)")
  show "wf (measure (\<lambda>(u, numPixels, i, r). nat \<lceil>numPixels :: real\<rceil> - i))"
    by simp
next
  fix uncompressedData :: "'a word list" and numPixels :: real and i rgbaIndex :: nat
    and rIndex gIndex bIndex :: real and rgbData :: "'a word list"
  assume a: "real i < numPixels"
  have "numPixels \<le> real_of_int \<lceil>numPixels\<rceil>"
    by (rule le_of_int_ceiling)
  with a have "int i < \<lceil>numPixels\<rceil>"
    by linarith
  then have "i < nat \<lceil>numPixels\<rceil>"
    by linarith
  then show "((uncompressedData, numPixels, i + 1, rgbaIndex + 3, rIndex + 1, gIndex + 1,
               bIndex + 1,
               rgbData[rgbaIndex := copied uncompressedData rIndex,
                       rgbaIndex + 1 := copied uncompressedData gIndex,
                       rgbaIndex + 2 := copied uncompressedData bIndex]),
              (uncompressedData, numPixels, i, rgbaIndex, rIndex, gIndex, bIndex, rgbData))
             \<in> measure (\<lambda>(u, numPixels, i, r). nat \<lceil>numPixels\<rceil> - i)"
    by simp
qed

declare deinterleave_loop.simps [simp del]

definition deinterleave :: "'a::len word list \<Rightarrow> 'a word list" where
  "deinterleave uncompressedData =
     (let rgbData = replicate (length uncompressedData) 0;
          numPixels = real (length uncompressedData) / 3
      in deinterleave_loop uncompressedData numPixels 0 0 0 numPixels (numPixels * 2) rgbData)"

text \<open>
  The YBR_FULL branch. A sample is read as a number (\<open>NaN\<close> stands for an \<open>undefined\<close> read,
  which the arithmetic turns into \<open>NaN\<close>); a number is stored by dropping its fraction and
  keeping the low bits, which is \<open>word_of_int\<close>.
\<close>

definition sampleValue :: "bool \<Rightarrow> 'a::len word \<Rightarrow> real" where
  "sampleValue isSigned w = real_of_int (if isSigned then sint w else uint w)"

definition sample :: "bool \<Rightarrow> 'a::len word list \<Rightarrow> nat \<Rightarrow> number" where
  "sample isSigned xs k = (if k < length xs then Num (sampleValue isSigned (xs ! k)) else NaN)"

definition truncate :: "real \<Rightarrow> int" where
  "truncate r = (if r < 0 then \<lceil>r\<rceil> else \<lfloor>r\<rfloor>)"

fun to_element :: "number \<Rightarrow> 'a::len word" where
  "to_element NaN = 0"
| "to_element (Num r) = word_of_int (truncate r)"

function ybr_loop ::
  "bool \<Rightarrow> 'a::len word list \<Rightarrow> real \<Rightarrow> nat \<Rightarrow> nat \<Rightarrow> nat \<Rightarrow> 'a word list \<Rightarrow> 'a word list"
where
  "ybr_loop isSigned uncompressedData nPixels i ybrIndex rgbaIndex rgbData =
     (if real i < nPixels
      then
        (let y = sample isSigned uncompressedData ybrIndex;
             cb = sample isSigned uncompressedData (ybrIndex + 1);
             cr = sample isSigned uncompressedData (ybrIndex + 2)
         in ybr_loop isSigned uncompressedData nPixels (i + 1) (ybrIndex + 3) (rgbaIndex + 3)
              (rgbData[rgbaIndex :=
                         to_element (num_add y (num_mul (Num (binary64 1.402)) (num_sub cr (Num 128)))),
                       rgbaIndex + 1 :=
                         to_element
                           (num_sub (num_sub y (num_mul (Num (binary64 0.34414)) (num_sub cb (Num 128))))
                                    (num_mul (Num (binary64 0.71414)) (num_sub cr (Num 128)))),
                       rgbaIndex + 2 :=
                         to_element (num_add y (num_mul (Num (binary64 1.772)) (num_sub cb (Num 128))))]))
      else rgbData)"
  by pat_completeness auto
termination
proof (relation "measure (\<lambda>(s, u, nPixels, i, r). nat \<lceil>nPixels\<rceil> - i)")
  show "wf (measure (\<lambda>(s, u, nPixels, i, r). nat \<lceil>nPixels :: real\<rceil> - i))"
    by simp
next
  fix isSigned :: bool and uncompressedData :: "'a word list" and nPixels :: real
    and i ybrIndex rgbaIndex :: nat and rgbData :: "'a word list" and y cb cr :: number
  assume a: "real i < nPixels"
  have "nPixels \<le> real_of_int \<lceil>nPixels\<rceil>"
    by (rule le_of_int_ceiling)
  with a have "int i < \<lceil>nPixels\<rceil>"
    by linarith
  then have "i < nat \<lceil>nPixels\<rceil>"
    by linarith
  then show "((isSigned, uncompressedData, nPixels, i + 1, ybrIndex + 3, rgbaIndex + 3,
               rgbData[rgbaIndex :=
                         to_element (num_add y (num_mul (Num (binary64 1.402)) (num_sub cr (Num 128)))),
                       rgbaIndex + 1 :=
                         to_element
                           (num_sub (num_sub y (num_mul (Num (binary64 0.34414)) (num_sub cb (Num 128))))
                                    (num_mul (Num (binary64 0.71414)) (num_sub cr (Num 128)))),
                       rgbaIndex + 2 :=
                         to_element (num_add y (num_mul (Num (binary64 1.772)) (num_sub cb (Num 128))))]),
              (isSigned, uncompressedData, nPixels, i, ybrIndex, rgbaIndex, rgbData))
             \<in> measure (\<lambda>(s, u, nPixels, i, r). nat \<lceil>nPixels\<rceil> - i)"
    by simp
qed

declare ybr_loop.simps [simp del]

definition ybr_full :: "bool \<Rightarrow> 'a::len word list \<Rightarrow> 'a word list" where
  "ybr_full isSigned uncompressedData =
     (let rgbData = replicate (length uncompressedData) 0;
          nPixels = real (length uncompressedData) / 3
      in ybr_loop isSigned uncompressedData nPixels 0 0 0 rgbData)"

text \<open>
  A missing planar configuration defaults to \<open>0\<close> (the source logs a line, which the model
  leaves out).
\<close>

definition convertColorSpace :: "DataSet \<Rightarrow> TypedArray \<Rightarrow> error + TypedArray" where
  "convertColorSpace ds uncompressedData =
     (let photometric = photometricInterpretation ds;
          planar = (case planarConfiguration ds of None \<Rightarrow> Num 0 | Some p \<Rightarrow> p);
          asRGB = (if truthy_string photometric then interpretAsRGB (the photometric) else False)
      in if asRGB \<and> planar = Num 0
         then Inr uncompressedData
         else if asRGB \<and> planar = Num 1
         then (case uncompressedData of
                 Int8Array xs \<Rightarrow> Inr (Int8Array (deinterleave xs))
               | Uint8Array xs \<Rightarrow> Inr (Uint8Array (deinterleave xs))
               | Int16Array xs \<Rightarrow> Inr (Int16Array (deinterleave xs))
               | Uint16Array xs \<Rightarrow> Inr (Uint16Array (deinterleave xs))
               | _ \<Rightarrow> Inl UnsupportedTypedArray)
         else if photometric = Some ''YBR_FULL''
         then (case uncompressedData of
                 Int8Array xs \<Rightarrow> Inr (Int8Array (ybr_full True xs))
               | Uint8Array xs \<Rightarrow> Inr (Uint8Array (ybr_full False xs))
               | Int16Array xs \<Rightarrow> Inr (Int16Array (ybr_full True xs))
               | Uint16Array xs \<Rightarrow> Inr (Uint16Array (ybr_full False xs))
               | _ \<Rightarrow> Inl UnsupportedTypedArray)
         else Inl (PhotometricNotSupported photometric))"

definition extractPixelData :: "codec \<Rightarrow> DataSet \<Rightarrow> int \<Rightarrow> error + TypedArray" where
  "extractPixelData decode ds frameIndex =
     (case decodePixelData decode ds frameIndex of
        Inl e \<Rightarrow> Inl e
      | Inr decompressedData \<Rightarrow>
          (let channels = numberOfChannels ds in
           if channels > 1
           then convertColorSpace ds decompressedData
           else Inr decompressedData))"

section \<open>Ordering the files of a series\<close>



text \<open>
  \<open>Array.prototype.sort\<close> belongs to the engine. What the language fixes of it is a
  contract: the result holds the elements of the array; when the comparator is a consistent
  comparator for them, no element stands behind one it is less than, and elements that
  compare equal keep their order (the sort is stable); when it is not, the order is left to
  the engine. A comparator result of \<open>NaN\<close> makes the comparator inconsistent. \<open>array_sort\<close>
  is that contract, as a relation between the array before and after.
\<close>

fun positive :: "number \<Rightarrow> bool" where
  "positive NaN = False"
| "positive (Num r) = (0 < r)"

fun negative :: "number \<Rightarrow> bool" where
  "negative NaN = False"
| "negative (Num r) = (r < 0)"






section \<open>The specification's side\<close>

text \<open>
  The definitions of this section follow the words of the specification, to be compared with
  the functions above.
\<close>

subsection \<open>First hit in a chain of tiers\<close>

definition first_hit :: "string option list \<Rightarrow> string option" where
  "first_hit tiers = (case filter (\<lambda>v. v \<noteq> None) tiers of [] \<Rightarrow> None | v # _ \<Rightarrow> v)"

text \<open>A tier that holds the empty string counts as a tier without a value.\<close>

definition nonempty :: "string option \<Rightarrow> string option" where
  "nonempty v = (if v = Some [] then None else v)"

subsection \<open>The byte range of a native frame\<close>

definition nativeFrameOffset :: "nat \<Rightarrow> nat \<Rightarrow> nat \<Rightarrow> nat \<Rightarrow> nat \<Rightarrow> nat" where
  "nativeFrameOffset frameIndex bits nrows ncolumns samples =
     frameIndex * bits * nrows * ncolumns * samples div 8"

definition nativeFrameBytes ::
  "8 word list \<Rightarrow> nat \<Rightarrow> nat \<Rightarrow> nat \<Rightarrow> nat \<Rightarrow> nat \<Rightarrow> 8 word list" where
  "nativeFrameBytes pixelData frameIndex bits nrows ncolumns samples =
     take (nativeFrameOffset 1 bits nrows ncolumns samples)
       (drop (nativeFrameOffset frameIndex bits nrows ncolumns samples) pixelData)"

subsection \<open>The three-way choice of a frame reader\<close>

definition offsetTableNonEmpty :: "DataSet \<Rightarrow> bool" where
  "offsetTableNonEmpty ds =
     (case elements ds ''x7fe00010'' of
        None \<Rightarrow> False
      | Some e \<Rightarrow> (case basicOffsetTable e of None \<Rightarrow> False | Some t \<Rightarrow> t \<noteq> []))"

definition frameCountDiffers :: "DataSet \<Rightarrow> bool" where
  "frameCountDiffers ds =
     strict_neq (intString ds ''x00280008'') (fragments_length (elements ds ''x7fe00010''))"

subsection \<open>Colour layouts\<close>

definition colourNames :: "string list" where
  "colourNames = [''RGB'', ''PALETTE COLOR'', ''YBR_FULL'', ''YBR_FULL_422'',
                  ''YBR_PARTIAL_422'', ''YBR_PARTIAL_420'', ''YBR_RCT'']"

definition rgbLike :: "string list" where
  "rgbLike = [''RGB'', ''YBR_RCT'', ''YBR_ICT'', ''YBR_FULL_422'']"

definition arrayLength :: "TypedArray \<Rightarrow> nat" where
  "arrayLength a =
     (case a of
        Int8Array xs \<Rightarrow> length xs | Uint8Array xs \<Rightarrow> length xs
      | Uint8ClampedArray xs \<Rightarrow> length xs
      | Int16Array xs \<Rightarrow> length xs | Uint16Array xs \<Rightarrow> length xs
      | Int32Array xs \<Rightarrow> length xs | Uint32Array xs \<Rightarrow> length xs
      | Float32Array xs \<Rightarrow> length xs | Float64Array xs \<Rightarrow> length xs)"

text \<open>Plane-major to pixel-major: pixel \<open>i\<close> is \<open>[plane0[i], plane1[i], plane2[i]]\<close>.\<close>

definition pixelMajor :: "'a list \<Rightarrow> 'a list" where
  "pixelMajor xs =
     (let numPixels = length xs div 3
      in concat (map (\<lambda>i. [xs ! i, xs ! (numPixels + i), xs ! (2 * numPixels + i)])
                   [0..<numPixels]))"

text \<open>
  The YCbCr to RGB transform of one pixel, as three numbers, each operation and each
  coefficient a double.
\<close>

definition ybrToRgb :: "real \<Rightarrow> real \<Rightarrow> real \<Rightarrow> real list" where
  "ybrToRgb y cb cr =
     [double_add y (double_mul (binary64 1.402) (double_sub cr 128)),
      double_sub (double_sub y (double_mul (binary64 0.34414) (double_sub cb 128)))
                 (double_mul (binary64 0.71414) (double_sub cr 128)),
      double_add y (double_mul (binary64 1.772) (double_sub cb 128))]"

text \<open>The same three formulas in exact arithmetic, as the claim writes them.\<close>

definition ybrToRgbExact :: "real \<Rightarrow> real \<Rightarrow> real \<Rightarrow> real list" where
  "ybrToRgbExact y cb cr =
     [y + 1.402 * (cr - 128),
      y - 0.34414 * (cb - 128) - 0.71414 * (cr - 128),
      y + 1.772 * (cb - 128)]"

text \<open>
  The same pixel as elements of the array: each number loses its fraction and is wrapped to
  the width of the element. A trailing incomplete pixel stays \<open>0\<close>.
\<close>

definition rgbPixel :: "bool \<Rightarrow> 'a::len word list \<Rightarrow> nat \<Rightarrow> 'a word list" where
  "rgbPixel isSigned xs i =
     map (\<lambda>v. word_of_int (truncate v))
       (ybrToRgb (sampleValue isSigned (xs ! (3 * i)))
                 (sampleValue isSigned (xs ! (3 * i + 1)))
                 (sampleValue isSigned (xs ! (3 * i + 2))))"

definition rgbOfYbr :: "bool \<Rightarrow> 'a::len word list \<Rightarrow> 'a word list" where
  "rgbOfYbr isSigned xs =
     concat (map (rgbPixel isSigned xs) [0..<length xs div 3]) @ replicate (length xs mod 3) 0"

subsection \<open>Both records carry a key\<close>



section \<open>Example data sets\<close>

definition emptyDataSet :: DataSet where
  "emptyDataSet = DataSet Map.empty [] Map.empty Map.empty Map.empty Map.empty"

definition sequenceElement :: "DataSet list \<Rightarrow> Element" where
  "sequenceElement dss = Element 0 0 (Some (map (\<lambda>d. Item (Some d)) dss)) None None"

text \<open>A data set that holds sequences only.\<close>

definition sequencesDataSet :: "(tag \<times> DataSet list) list \<Rightarrow> DataSet" where
  "sequencesDataSet seqs =
     DataSet (map_of (map (\<lambda>(t, dss). (t, sequenceElement dss)) seqs)) []
       Map.empty Map.empty Map.empty Map.empty"

text \<open>A data set with one text element of \<open>n\<close> bytes that reads as \<open>s\<close>.\<close>

definition textDataSet :: "tag \<Rightarrow> nat \<Rightarrow> string \<Rightarrow> DataSet" where
  "textDataSet t n s =
     DataSet (Map.empty(t \<mapsto> Element 0 n None None None)) []
       (Map.empty(t \<mapsto> s)) Map.empty Map.empty Map.empty"

text \<open>A data set with one decimal-string element.\<close>

definition numberDataSet :: "tag \<Rightarrow> string \<Rightarrow> number \<Rightarrow> DataSet" where
  "numberDataSet t s v =
     DataSet (Map.empty(t \<mapsto> Element 0 (length s) None None None)) []
       (Map.empty(t \<mapsto> s)) (Map.empty(t \<mapsto> v)) Map.empty Map.empty"

text \<open>
  The shared group holds a blank SOP instance UID (two spaces, which read as the empty
  string); the per-frame groups of frames 0 and 1 hold two different ones.
\<close>

definition blankSharedDataSet :: DataSet where
  "blankSharedDataSet =
     sequencesDataSet
       [(''x52009229'',
           [sequencesDataSet [(''x2005140f'', [textDataSet ''x00080018'' 2 []])]]),
        (''x52009230'',
           [sequencesDataSet [(''x2005140f'', [textDataSet ''x00080018'' 6 ''1.2.10''])],
            sequencesDataSet [(''x2005140f'', [textDataSet ''x00080018'' 6 ''1.2.11''])]])]"

text \<open>Only the shared group holds the SOP instance UID.\<close>

definition sharedOnlyDataSet :: DataSet where
  "sharedOnlyDataSet =
     sequencesDataSet
       [(''x52009229'',
           [sequencesDataSet [(''x2005140f'', [textDataSet ''x00080018'' 6 ''1.2.84''])]])]"

text \<open>The groups exist, the rescale intercept is in none of them.\<close>

definition groupsWithoutTagDataSet :: DataSet where
  "groupsWithoutTagDataSet =
     sequencesDataSet
       [(''x52009229'', [sequencesDataSet [(''x00289145'', [emptyDataSet])]]),
        (''x52009230'', [sequencesDataSet [(''x00289145'', [emptyDataSet])]])]"

text \<open>The rescale intercept is \<open>5\<close> on the root and \<open>7\<close> in the shared group.\<close>

definition bothPopulatedDataSet :: DataSet where
  "bothPopulatedDataSet =
     DataSet
       (Map.empty(''x00281052'' \<mapsto> Element 0 1 None None None,
                  ''x52009229'' \<mapsto> sequenceElement
                     [sequencesDataSet
                        [(''x00289145'', [numberDataSet ''x00281052'' ''7'' (Num 7)])]]))
       []
       (Map.empty(''x00281052'' \<mapsto> ''5''))
       (Map.empty(''x00281052'' \<mapsto> Num 5))
       Map.empty Map.empty"

text \<open>A per-frame group for frame 0 without the referenced-segment sequence.\<close>

definition perFrameWithoutSegmentDataSet :: DataSet where
  "perFrameWithoutSegmentDataSet = sequencesDataSet [(''x52009230'', [emptyDataSet])]"

text \<open>An image: its texts, its 16-bit values, its integer strings and its pixel bytes.\<close>

definition imageDataSet ::
  "(tag \<times> string) list \<Rightarrow> (tag \<times> number) list \<Rightarrow> (tag \<times> number) list \<Rightarrow> 8 word list
     \<Rightarrow> DataSet" where
  "imageDataSet texts shorts ints bytes =
     DataSet (Map.empty(''x7fe00010'' \<mapsto> Element 0 (length bytes) None None None)) bytes
       (map_of texts) Map.empty (map_of ints) (map_of shorts)"

text \<open>Two native frames of one 8-bit sample each.\<close>

definition twoFrameDataSet :: DataSet where
  "twoFrameDataSet =
     imageDataSet
       [(''x00020010'', ''1.2.840.10008.1.2.1''), (''x00280004'', ''MONOCHROME2'')]
       [(''x00280002'', Num 1), (''x00280010'', Num 1), (''x00280011'', Num 1),
        (''x00280100'', Num 8), (''x00280103'', Num 0)]
       [(''x00280008'', Num 2)]
       [10, 20]"

text \<open>A palette image: one sample per pixel.\<close>

definition paletteDataSet :: DataSet where
  "paletteDataSet =
     imageDataSet
       [(''x00020010'', ''1.2.840.10008.1.2.1''), (''x00280004'', ''PALETTE COLOR'')]
       [(''x00280002'', Num 1), (''x00280010'', Num 1), (''x00280011'', Num 2),
        (''x00280100'', Num 8), (''x00280103'', Num 0)]
       []
       [10, 20]"

definition planarRgbDataSet :: DataSet where
  "planarRgbDataSet =
     imageDataSet
       [(''x00020010'', ''1.2.840.10008.1.2.1''), (''x00280004'', ''RGB'')]
       [(''x00280002'', Num 3), (''x00280006'', Num 1), (''x00280010'', Num 1),
        (''x00280011'', Num 2), (''x00280100'', Num 8), (''x00280103'', Num 0)]
       []
       [1, 2, 3, 4, 5, 6]"

definition ybrFullDataSet :: DataSet where
  "ybrFullDataSet =
     imageDataSet
       [(''x00020010'', ''1.2.840.10008.1.2.1''), (''x00280004'', ''YBR_FULL'')]
       [(''x00280002'', Num 3), (''x00280006'', Num 0), (''x00280010'', Num 1),
        (''x00280011'', Num 1), (''x00280100'', Num 8), (''x00280103'', Num 0)]
       []
       [128, 128, 129]"

text \<open>A codec for native data: the bytes are the samples.\<close>

definition nativeCodec :: codec where
  "nativeCodec bytes info syntax = Inr (Uint8Array bytes)"

text \<open>An encapsulated image: its declared number of frames and its pixel data element.\<close>

definition encapsulatedDataSet :: "number option \<Rightarrow> Element \<Rightarrow> DataSet" where
  "encapsulatedDataSet frames pixelDataElement =
     DataSet (Map.empty(''x7fe00010'' \<mapsto> pixelDataElement)) []
       Map.empty Map.empty (\<lambda>t. if t = ''x00280008'' then frames else None) Map.empty"

text \<open>Readers that tell which of them ran, and with or without a rebuilt table.\<close>

definition viaTable :: frame_reader where
  "viaTable ds el frameIndex table = Inr (case table of None \<Rightarrow> [1] | Some t \<Rightarrow> [2])"

definition rebuildTable :: table_builder where
  "rebuildTable ds el = Inr [0]"

definition viaFragments :: fragment_reader where
  "viaFragments ds el frameIndex = Inr [3]"










section \<open>Properties of the attribute resolver\<close>

text \<open>
  C1, as the code has it. The string resolver returns the first \<^emph>\<open>non-empty\<close> value of the
  chain shared group (x52009229, item 0), per-frame group (x52009230, item \<open>k\<close>), PET
  sequence (x00540022, item 0), and otherwise whatever the root data set holds for the tag.
  A tier that holds the empty string is passed over like a tier without a value. When the
  shared group yields a non-empty value, that value is the result for every frame index.
  SOP instance UID, image orientation, image position and pixel spacing call the resolver
  with the pairs (x2005140f, x00080018), (x00209116, x00200037), (x00209113, x00200032) and
  (x00289110, x00280030); the statement holds for every pair.
\<close>

theorem resolver_first_nonempty_tier:
  "findStringEverywhere ds subsequence t k =
     (case first_hit
             [nonempty (findStringInGroupSequence ds ''x52009229'' subsequence t 0),
              nonempty (findStringInGroupSequence ds ''x52009230'' subsequence t k),
              nonempty (findStringInSequence ds ''x00540022'' t)] of
        Some v \<Rightarrow> Some v
      | None \<Rightarrow> string ds t)
   \<and> (\<forall>v. findStringInGroupSequence ds ''x52009229'' subsequence t 0 = Some v \<and> v \<noteq> [] \<longrightarrow>
          (\<forall>j. findStringEverywhere ds subsequence t j = Some v))"
proof
  let ?a = "findStringInGroupSequence ds ''x52009229'' subsequence t 0"
  let ?b = "findStringInGroupSequence ds ''x52009230'' subsequence t k"
  let ?c = "findStringInSequence ds ''x00540022'' t"
  show "findStringEverywhere ds subsequence t k =
     (case first_hit [nonempty ?a, nonempty ?b, nonempty ?c] of
        Some v \<Rightarrow> Some v | None \<Rightarrow> string ds t)"
    by (cases ?a; cases ?b; cases ?c)
       (auto simp: findStringEverywhere_def findStringInFrameGroupSequence_def or_string_def
          first_hit_def nonempty_def Let_def)
next
  show "\<forall>v. findStringInGroupSequence ds ''x52009229'' subsequence t 0 = Some v \<and> v \<noteq> [] \<longrightarrow>
          (\<forall>j. findStringEverywhere ds subsequence t j = Some v)"
    by (simp add: findStringEverywhere_def findStringInFrameGroupSequence_def or_string_def
          Let_def)
qed

text \<open>
  Witness for C1: with the SOP instance UID in the shared group only, frames 0 and 7 resolve
  to it.
\<close>

theorem resolver_shared_only_example:
  "findStringInGroupSequence sharedOnlyDataSet ''x52009229'' ''x2005140f'' ''x00080018'' 0
     = Some ''1.2.84''
   \<and> findStringEverywhere sharedOnlyDataSet ''x2005140f'' ''x00080018'' 0 = Some ''1.2.84''
   \<and> findStringEverywhere sharedOnlyDataSet ''x2005140f'' ''x00080018'' 7 = Some ''1.2.84''"
proof -
  have h: "findStringInGroupSequence sharedOnlyDataSet ''x52009229'' ''x2005140f''
             ''x00080018'' 0 = Some ''1.2.84''"
    by (simp add: sharedOnlyDataSet_def sequencesDataSet_def sequenceElement_def textDataSet_def
          findStringInGroupSequence_def findInGroupSequence_def item_dataSet_def at_index_def)
  from resolver_first_nonempty_tier [of sharedOnlyDataSet "''x2005140f''" "''x00080018''" 0] h
  show ?thesis by simp
qed

text \<open>
  C1 as stated fails: the shared group yields a value, the empty string, and the resolver
  goes on to the per-frame group, so that frames 0 and 1 get different results.
\<close>

theorem resolver_skips_blank_shared_value:
  "findStringInGroupSequence blankSharedDataSet ''x52009229'' ''x2005140f'' ''x00080018'' 0
     = Some []
   \<and> sopInstanceUID blankSharedDataSet 0 = Some ''1.2.10''
   \<and> sopInstanceUID blankSharedDataSet 1 = Some ''1.2.11''"
  by (simp add: blankSharedDataSet_def sequencesDataSet_def sequenceElement_def textDataSet_def
        sopInstanceUID_def findStringEverywhere_def findStringInFrameGroupSequence_def
        or_string_def findStringInSequence_def findStringInGroupSequence_def findInGroupSequence_def item_dataSet_def at_index_def)

text \<open>
  C5. When no tier holds the tag, the string resolver and the decimal-string resolver both
  return \<open>null\<close>: not a number, and there is no path on which they throw.
\<close>

theorem resolver_absent_is_null:
  "(findStringInGroupSequence ds ''x52009229'' subsequence t 0 = None \<and>
    findStringInGroupSequence ds ''x52009230'' subsequence t k = None \<and>
    findStringInSequence ds ''x00540022'' t = None \<and>
    string ds t = None
      \<longrightarrow> findStringEverywhere ds subsequence t k = None)
   \<and> (floatString ds t = None \<and>
      (case findInGroupSequence ds ''x52009229'' subsequence 0 of
         None \<Rightarrow> None | Some g \<Rightarrow> floatString g t) = None \<and>
      (case findInGroupSequence ds ''x52009230'' subsequence k of
         None \<Rightarrow> None | Some g \<Rightarrow> floatString g t) = None
      \<longrightarrow> findFloatStringInFrameGroupSequence ds subsequence t k = None)"
  by (auto simp: findFloatStringInFrameGroupSequence_def findFloatStringInGroupSequence_def
        or_number_def findStringEverywhere_def findStringInFrameGroupSequence_def or_string_def
        Let_def split: option.splits)

text \<open>
  Witness for C5: the image position of an empty data set, and the rescale intercept of a
  data set whose groups exist without it.
\<close>

theorem resolver_absent_example:
  "findStringEverywhere emptyDataSet ''x00209113'' ''x00200032'' 0 = None
   \<and> findFloatStringInFrameGroupSequence groupsWithoutTagDataSet ''x00289145'' ''x00281052'' 0
       = None
   \<and> findFloatStringInFrameGroupSequence groupsWithoutTagDataSet ''x00289145'' ''x00281052'' 0
       \<noteq> Some (Num 0)"
proof -
  have s: "findStringInGroupSequence emptyDataSet ''x52009229'' ''x00209113'' ''x00200032'' 0
             = None \<and>
    findStringInGroupSequence emptyDataSet ''x52009230'' ''x00209113'' ''x00200032'' 0 = None \<and>
    findStringInSequence emptyDataSet ''x00540022'' ''x00200032'' = None \<and>
    string emptyDataSet ''x00200032'' = None"
    by (simp add: emptyDataSet_def findStringInSequence_def findStringInGroupSequence_def findInGroupSequence_def item_dataSet_def at_index_def)
  have f: "floatString groupsWithoutTagDataSet ''x00281052'' = None \<and>
      (case findInGroupSequence groupsWithoutTagDataSet ''x52009229'' ''x00289145'' 0 of
         None \<Rightarrow> None | Some g \<Rightarrow> floatString g ''x00281052'') = None \<and>
      (case findInGroupSequence groupsWithoutTagDataSet ''x52009230'' ''x00289145'' 0 of
         None \<Rightarrow> None | Some g \<Rightarrow> floatString g ''x00281052'') = None"
    by (simp add: groupsWithoutTagDataSet_def sequencesDataSet_def sequenceElement_def emptyDataSet_def
          findInGroupSequence_def item_dataSet_def at_index_def)
  from resolver_absent_is_null [of emptyDataSet "''x00209113''" "''x00200032''" 0] s
  have a: "findStringEverywhere emptyDataSet ''x00209113'' ''x00200032'' 0 = None"
    by blast
  from resolver_absent_is_null [of groupsWithoutTagDataSet "''x00289145''" "''x00281052''" 0] f
  have b: "findFloatStringInFrameGroupSequence groupsWithoutTagDataSet ''x00289145''
             ''x00281052'' 0 = None"
    by blast
  from a b show ?thesis by simp
qed

text \<open>
  C6. For rescale intercept, rescale slope, window center and window width, at every frame
  index, a value on the root data set is the result, whatever the shared and per-frame
  groups hold; the same holds for every tag resolved this way.
\<close>

theorem direct_numeric_read_first:
  "(floatString ds t = Some v \<longrightarrow>
      findFloatStringInFrameGroupSequence ds subsequence t frameIndex = Some v)
   \<and> (floatString ds ''x00281052'' = Some v \<longrightarrow> rescaleIntercept ds frameIndex = Some v)
   \<and> (floatString ds ''x00281053'' = Some v \<longrightarrow> rescaleSlope ds frameIndex = Some v)
   \<and> (floatString ds ''x00281050'' = Some v \<longrightarrow> windowCenter ds frameIndex = Some v)
   \<and> (floatString ds ''x00281051'' = Some v \<longrightarrow> windowWidth ds frameIndex = Some v)"
  by (simp add: findFloatStringInFrameGroupSequence_def findFloatStringInGroupSequence_def
        or_number_def rescaleIntercept_def rescaleSlope_def windowCenter_def windowWidth_def)

text \<open>
  Witness for C6: the root says \<open>5\<close>, the shared group says \<open>7\<close>, the rescale intercept of
  frame 3 is \<open>5\<close>.
\<close>

theorem direct_numeric_read_example:
  "floatString bothPopulatedDataSet ''x00281052'' = Some (Num 5)
   \<and> (case findInGroupSequence bothPopulatedDataSet ''x52009229'' ''x00289145'' 0 of
         None \<Rightarrow> None | Some g \<Rightarrow> floatString g ''x00281052'') = Some (Num 7)
   \<and> rescaleIntercept bothPopulatedDataSet 3 = Some (Num 5)"
proof -
  have h: "floatString bothPopulatedDataSet ''x00281052'' = Some (Num 5)"
    by (simp add: bothPopulatedDataSet_def)
  have g: "(case findInGroupSequence bothPopulatedDataSet ''x52009229'' ''x00289145'' 0 of
         None \<Rightarrow> None | Some g \<Rightarrow> floatString g ''x00281052'') = Some (Num 7)"
    by (simp add: bothPopulatedDataSet_def sequencesDataSet_def sequenceElement_def numberDataSet_def
          findInGroupSequence_def item_dataSet_def at_index_def)
  from direct_numeric_read_first
         [of bothPopulatedDataSet "''x00281052''" "Num 5" "''x00289145''" 3] h g
  show ?thesis by simp
qed

text \<open>
  C10. When the per-frame group of the frame, or the referenced-segment sequence inside it,
  is missing, \<open>referencedSegmentNumber\<close> returns the number \<open>-1\<close> and not \<open>null\<close>.
\<close>

theorem referenced_segment_sentinel:
  "item_dataSet (elements ds ''x52009230'') frameIndex = None \<or>
   (\<exists>g. item_dataSet (elements ds ''x52009230'') frameIndex = Some g \<and>
        item_dataSet (elements g ''x0062000a'') 0 = None)
   \<Longrightarrow> referencedSegmentNumber ds frameIndex = Some (Num (- 1))
       \<and> referencedSegmentNumber ds frameIndex \<noteq> None"
  by (auto simp: referencedSegmentNumber_def findInGroupSequence_def)

text \<open>
  Witness for C10: no per-frame sequence at all, a per-frame group without the sequence, and
  a frame index past the last group; the rescale intercept of the empty data set is \<open>null\<close>.
\<close>

theorem referenced_segment_example:
  "referencedSegmentNumber emptyDataSet 0 = Some (Num (- 1))
   \<and> referencedSegmentNumber perFrameWithoutSegmentDataSet 0 = Some (Num (- 1))
   \<and> referencedSegmentNumber perFrameWithoutSegmentDataSet 1 = Some (Num (- 1))
   \<and> rescaleIntercept emptyDataSet 0 = None"
proof -
  have a: "item_dataSet (elements emptyDataSet ''x52009230'') 0 = None"
    by (simp add: emptyDataSet_def item_dataSet_def)
  have b: "\<exists>g. item_dataSet (elements perFrameWithoutSegmentDataSet ''x52009230'') 0 = Some g \<and>
        item_dataSet (elements g ''x0062000a'') 0 = None"
    by (simp add: perFrameWithoutSegmentDataSet_def sequencesDataSet_def sequenceElement_def emptyDataSet_def
          item_dataSet_def at_index_def)
  have c: "item_dataSet (elements perFrameWithoutSegmentDataSet ''x52009230'') 1 = None"
    by (simp add: perFrameWithoutSegmentDataSet_def sequencesDataSet_def sequenceElement_def emptyDataSet_def
          item_dataSet_def at_index_def)
  have d: "rescaleIntercept emptyDataSet 0 = None"
    by (simp add: emptyDataSet_def rescaleIntercept_def findFloatStringInFrameGroupSequence_def
          findFloatStringInGroupSequence_def or_number_def findInGroupSequence_def item_dataSet_def at_index_def)
  from referenced_segment_sentinel [of emptyDataSet 0]
       referenced_segment_sentinel [of perFrameWithoutSegmentDataSet 0]
       referenced_segment_sentinel [of perFrameWithoutSegmentDataSet 1] a b c d
  show ?thesis by blast
qed

section \<open>Properties of the pixel pipeline\<close>

text \<open>
  C2, as the code has it. The frame index plays no part in decoding: for every frame index
  the codec receives the whole pixel data element, from its offset and of its length, with
  the format hints of the header, and \<open>extractPixelData\<close> returns the same result for every
  frame index.
\<close>

theorem decode_ignores_frame_index:
  "decodePixelData decode ds frameIndex = decodePixelData decode ds 0
   \<and> extractPixelData decode ds frameIndex = extractPixelData decode ds 0
   \<and> (elements ds ''x7fe00010'' = Some e \<and>
      dataOffset e + length_el e \<le> length (byteArray ds) \<longrightarrow>
        decodePixelData decode ds frameIndex =
          decode (take (length_el e) (drop (dataOffset e) (byteArray ds)))
            (ImageInfo (rows ds) (columns ds) (bitsAllocated ds) (samplesPerPixel ds)
               (pixelRepresentation ds = Some (Num 1)))
            (transferSyntaxUID ds))"
  by (simp add: extractPixelData_def decodePixelData_def Let_def)

text \<open>Witness for C2: frame 1 of the two-frame image decodes both bytes.\<close>

theorem decode_whole_element_example:
  "elements twoFrameDataSet ''x7fe00010'' = Some (Element 0 2 None None None)
   \<and> decodePixelData nativeCodec twoFrameDataSet 1 = Inr (Uint8Array [10, 20])"
proof -
  have h: "elements twoFrameDataSet ''x7fe00010'' = Some (Element 0 2 None None None) \<and>
      dataOffset (Element 0 2 None None None) + length_el (Element 0 2 None None None)
        \<le> length (byteArray twoFrameDataSet)"
    by (simp add: twoFrameDataSet_def imageDataSet_def)
  from decode_ignores_frame_index
         [of nativeCodec twoFrameDataSet 1 "Element 0 2 None None None"] h
  have "decodePixelData nativeCodec twoFrameDataSet 1 =
          nativeCodec
            (take (length_el (Element 0 2 None None None))
               (drop (dataOffset (Element 0 2 None None None)) (byteArray twoFrameDataSet)))
            (ImageInfo (rows twoFrameDataSet) (columns twoFrameDataSet)
               (bitsAllocated twoFrameDataSet) (samplesPerPixel twoFrameDataSet)
               (pixelRepresentation twoFrameDataSet = Some (Num 1)))
            (transferSyntaxUID twoFrameDataSet)"
    by blast
  moreover have "byteArray twoFrameDataSet = [10, 20]"
    by (simp add: twoFrameDataSet_def imageDataSet_def)
  ultimately show ?thesis
    using h by (simp add: nativeCodec_def)
qed

text \<open>
  C2 as stated fails: with two frames of one byte each, frame 1 would be the byte at offset
  \<open>1 * 8 * 1 * 1 * 1 / 8 = 1\<close>, but frames 0 and 1 both decode the two bytes together.
\<close>

theorem frames_not_separated:
  "extractPixelData nativeCodec twoFrameDataSet 1 = Inr (Uint8Array [10, 20])
   \<and> extractPixelData nativeCodec twoFrameDataSet 0 = extractPixelData nativeCodec twoFrameDataSet 1
   \<and> nativeFrameBytes [10, 20] 1 8 1 1 1 = [20]
   \<and> nativeFrameBytes [10, 20] 0 8 1 1 1 = [10]"
  by (simp add: twoFrameDataSet_def imageDataSet_def nativeCodec_def extractPixelData_def
        decodePixelData_def numberOfChannels_def nativeFrameBytes_def nativeFrameOffset_def
        photometricInterpretation_def transferSyntaxUID_def rows_def columns_def bitsAllocated_def
        samplesPerPixel_def pixelRepresentation_def planarConfiguration_def)

text \<open>
  C3, as the code has it. The pass-through is decided by the photometric interpretation and
  not by the samples per pixel: when the photometric interpretation is absent or is none of
  RGB, PALETTE COLOR, YBR_FULL, YBR_FULL_422, YBR_PARTIAL_422, YBR_PARTIAL_420 and YBR_RCT,
  \<open>extractPixelData\<close> returns what the codec returned, unchanged, and raises nothing of its
  own.
\<close>

theorem extract_passes_through_by_photometric:
  "(\<forall>s. photometricInterpretation ds = Some s \<longrightarrow> s \<notin> set colourNames)
   \<Longrightarrow> extractPixelData decode ds frameIndex = decodePixelData decode ds frameIndex"
  by (cases "photometricInterpretation ds")
     (auto simp: extractPixelData_def numberOfChannels_def colourNames_def Let_def
        split: sum.splits)

text \<open>Witness for C3: a MONOCHROME2 image comes out as decoded.\<close>

theorem extract_monochrome_example:
  "extractPixelData nativeCodec twoFrameDataSet 0 = Inr (Uint8Array [10, 20])"
proof -
  have "\<forall>s. photometricInterpretation twoFrameDataSet = Some s \<longrightarrow> s \<notin> set colourNames"
    by (simp add: twoFrameDataSet_def imageDataSet_def photometricInterpretation_def
          colourNames_def)
  from extract_passes_through_by_photometric [OF this, of nativeCodec 0] show ?thesis
    by (simp add: twoFrameDataSet_def imageDataSet_def nativeCodec_def decodePixelData_def
        photometricInterpretation_def transferSyntaxUID_def rows_def columns_def bitsAllocated_def
        samplesPerPixel_def pixelRepresentation_def planarConfiguration_def)
qed

text \<open>
  C3 as stated fails: a palette image has one sample per pixel, its samples decode, and
  \<open>extractPixelData\<close> fails in the colour conversion.
\<close>

theorem palette_single_sample_fails:
  "samplesPerPixel paletteDataSet = Some (Num 1)
   \<and> decodePixelData nativeCodec paletteDataSet 0 = Inr (Uint8Array [10, 20])
   \<and> extractPixelData nativeCodec paletteDataSet 0
       = Inl (PhotometricNotSupported (Some ''PALETTE COLOR''))"
  by (simp add: paletteDataSet_def imageDataSet_def nativeCodec_def extractPixelData_def
        decodePixelData_def numberOfChannels_def convertColorSpace_def interpretAsRGB_def
        photometricInterpretation_def transferSyntaxUID_def rows_def columns_def bitsAllocated_def
        samplesPerPixel_def pixelRepresentation_def planarConfiguration_def)

text \<open>
  C4. \<open>getEncapsulatedImageFrame\<close> reads through the offset table of the element when that
  table is not empty; otherwise, when the declared number of frames differs from the number
  of fragments, it rebuilds a table and reads through it; otherwise it reads the fragment of
  the frame directly.
\<close>

theorem encapsulated_frame_three_way:
  "(offsetTableNonEmpty ds \<longrightarrow>
      getEncapsulatedImageFrame readFrame createTable readFragments ds frameIndex =
        readFrame ds (elements ds ''x7fe00010'') frameIndex None)
   \<and> (\<not> offsetTableNonEmpty ds \<and> frameCountDiffers ds \<longrightarrow>
      getEncapsulatedImageFrame readFrame createTable readFragments ds frameIndex =
        (case createTable ds (elements ds ''x7fe00010'') of
           Inl e \<Rightarrow> Inl e
         | Inr table \<Rightarrow> readFrame ds (elements ds ''x7fe00010'') frameIndex (Some table)))
   \<and> (\<not> offsetTableNonEmpty ds \<and> \<not> frameCountDiffers ds \<longrightarrow>
      getEncapsulatedImageFrame readFrame createTable readFragments ds frameIndex =
        readFragments ds (elements ds ''x7fe00010'') frameIndex)"
  by (auto simp: getEncapsulatedImageFrame_def offsetTableNonEmpty_def frameCountDiffers_def
        framesAreFragmented_def split: option.splits)

text \<open>
  Witness for C4: two fragments with a table of two offsets; two fragments for one declared
  frame and an empty table; two fragments for two declared frames and an empty table.
\<close>

theorem encapsulated_frame_example:
  "getEncapsulatedImageFrame viaTable rebuildTable viaFragments
     (encapsulatedDataSet (Some (Num 2))
        (Element 0 8 None (Some [(0, 4), (4, 4)]) (Some [0, 4]))) 1
     = Inr [1]
   \<and> getEncapsulatedImageFrame viaTable rebuildTable viaFragments
     (encapsulatedDataSet (Some (Num 1))
        (Element 0 8 None (Some [(0, 4), (4, 4)]) (Some []))) 0
     = Inr [2]
   \<and> getEncapsulatedImageFrame viaTable rebuildTable viaFragments
     (encapsulatedDataSet (Some (Num 2))
        (Element 0 8 None (Some [(0, 4), (4, 4)]) (Some []))) 1
     = Inr [3]"
proof -
  let ?d1 = "encapsulatedDataSet (Some (Num 2))
               (Element 0 8 None (Some [(0, 4), (4, 4)]) (Some [0, 4]))"
  let ?d2 = "encapsulatedDataSet (Some (Num 1))
               (Element 0 8 None (Some [(0, 4), (4, 4)]) (Some []))"
  let ?d3 = "encapsulatedDataSet (Some (Num 2))
               (Element 0 8 None (Some [(0, 4), (4, 4)]) (Some []))"
  have a: "offsetTableNonEmpty ?d1"
    by (simp add: encapsulatedDataSet_def offsetTableNonEmpty_def)
  have b: "\<not> offsetTableNonEmpty ?d2 \<and> frameCountDiffers ?d2"
    by (simp add: encapsulatedDataSet_def offsetTableNonEmpty_def frameCountDiffers_def
          fragments_length_def)
  have c: "\<not> offsetTableNonEmpty ?d3 \<and> \<not> frameCountDiffers ?d3"
    by (simp add: encapsulatedDataSet_def offsetTableNonEmpty_def frameCountDiffers_def
          fragments_length_def)
  from encapsulated_frame_three_way [of ?d1 viaTable rebuildTable viaFragments 1] a
  have 1: "getEncapsulatedImageFrame viaTable rebuildTable viaFragments ?d1 1 = Inr [1]"
    by (simp add: encapsulatedDataSet_def viaTable_def)
  from encapsulated_frame_three_way [of ?d2 viaTable rebuildTable viaFragments 0] b
  have 2: "getEncapsulatedImageFrame viaTable rebuildTable viaFragments ?d2 0 = Inr [2]"
    by (simp add: encapsulatedDataSet_def viaTable_def rebuildTable_def)
  from encapsulated_frame_three_way [of ?d3 viaTable rebuildTable viaFragments 1] c
  have 3: "getEncapsulatedImageFrame viaTable rebuildTable viaFragments ?d3 1 = Inr [3]"
    by (simp add: encapsulatedDataSet_def viaFragments_def)
  from 1 2 3 show ?thesis by simp
qed

section \<open>Properties of the rounding\<close>

lemma round_even_of_int: "round_even (real_of_int n) = n"
  by (simp add: round_even_def)



lemma binary64_zero: "binary64 0 = 0"
  by (simp add: binary64_def)

lemma binary64_minus: "binary64 (- x) = - binary64 x"
  by (simp add: binary64_def Let_def)






text \<open>An integer below \<open>2 ^ 53\<close> in magnitude is a double.\<close>

lemma binary64_of_pos_int:
  assumes "0 < k" and "k < 2 ^ 53"
  shows "binary64 (real_of_int k) = real_of_int k"
proof -
  let ?e = "bitlen k - 1"
  have a1: "1 \<le> real_of_int k" using assms(1) by simp
  have e: "exponent \<bar>real_of_int k\<bar> = ?e"
    using assms(1) a1 by (simp add: exponent_def)
  have "bitlen k \<le> 53"
    using assms(2) by (simp add: bitlen_le_iff_power)
  then have le: "?e \<le> 52" by simp
  let ?d = "nat (52 - ?e)"
  have u: "(2::real) powi (?e - 52) = 1 / 2 ^ ?d"
  proof -
    have "?e - 52 = - int ?d" using le by simp
    then have "(2::real) powi (?e - 52) = 2 powi (- int ?d)" by simp
    also have "\<dots> = 1 / 2 ^ ?d"
      by (simp only: power_int_minus_divide power_int_of_nat)
    finally show ?thesis .
  qed
  have q: "\<bar>real_of_int k\<bar> / (1 / 2 ^ ?d) = real_of_int (k * 2 ^ ?d)"
    using assms(1) by simp
  have "binary64 (real_of_int k)
      = real_of_int (round_even (real_of_int (k * 2 ^ ?d))) * (1 / 2 ^ ?d)"
    using assms(1) by (simp only: binary64_def Let_def e u q) simp
  also have "\<dots> = real_of_int k"
    by (simp only: round_even_of_int) simp
  finally show ?thesis .
qed

lemma binary64_of_int:
  assumes "\<bar>k\<bar> < 2 ^ 53"
  shows "binary64 (real_of_int k) = real_of_int k"
proof (cases "0 < k")
  case True
  with assms show ?thesis by (intro binary64_of_pos_int) simp_all
next
  case False
  show ?thesis
  proof (cases "k = 0")
    case True
    then show ?thesis by (simp add: binary64_zero)
  next
    case False
    with \<open>\<not> 0 < k\<close> have "0 < - k" by simp
    moreover from assms have "- k < 2 ^ 53" by simp
    ultimately have "binary64 (real_of_int (- k)) = real_of_int (- k)"
      by (rule binary64_of_pos_int)
    then show ?thesis by (simp add: binary64_minus)
  qed
qed

text \<open>The sample of a typed array of at most 53 bits is a double.\<close>

lemma binary64_sampleValue:
  fixes w :: "'a::len word"
  assumes "LENGTH('a) \<le> 53"
  shows "binary64 (sampleValue s w) = sampleValue s w"
proof -
  have p: "(2::int) ^ LENGTH('a) \<le> 2 ^ 53"
    using assms by (intro power_increasing) simp_all
  have u: "\<bar>uint w\<bar> < 2 ^ 53"
  proof -
    have "uint w < 2 ^ LENGTH('a)" by (rule uint_lt2p)
    then have "uint w < 2 ^ 53" using p by (rule less_le_trans)
    moreover have "0 \<le> uint w" by simp
    ultimately show ?thesis by linarith
  qed
  have s: "\<bar>sint w\<bar> < 2 ^ 53"
  proof -
    have "sint w < 2 ^ (LENGTH('a) - 1)" by (rule sint_lt)
    moreover have "- (2 ^ (LENGTH('a) - 1)) \<le> sint w" by (rule sint_ge)
    moreover have "(2::int) ^ (LENGTH('a) - 1) < 2 ^ 53"
    proof -
      have "(2::int) ^ (LENGTH('a) - 1) < 2 ^ LENGTH('a)"
        by (intro power_strict_increasing) simp_all
      then show ?thesis using p by (rule less_le_trans)
    qed
    ultimately show ?thesis by linarith
  qed
  show ?thesis
    using u s by (simp add: sampleValue_def binary64_of_int)
qed

section \<open>Properties of the colour conversion\<close>

subsection \<open>Reading and writing three elements at a time\<close>

lemma element_at_nat:
  "element_at xs (real k) = (if k < length xs then Some (xs ! k) else None)"
  by (simp add: element_at_def)

lemma copied_nat: "k < length xs \<Longrightarrow> copied xs (real k) = xs ! k"
  by (simp add: copied_def element_at_nat)

lemma take_three_updates:
  assumes "k + 3 \<le> length ys"
  shows "take (k + 3) (ys[k := a, k + 1 := b, k + 2 := c]) = take k ys @ [a, b, c]"
proof (rule nth_equalityI)
  show "length (take (k + 3) (ys[k := a, k + 1 := b, k + 2 := c])) = length (take k ys @ [a, b, c])"
    using assms by simp
next
  fix j
  assume "j < length (take (k + 3) (ys[k := a, k + 1 := b, k + 2 := c]))"
  then have j: "j < k + 3" by simp
  consider "j < k" | "j = k" | "j = k + 1" | "j = k + 2"
    using j by linarith
  then show "take (k + 3) (ys[k := a, k + 1 := b, k + 2 := c]) ! j = (take k ys @ [a, b, c]) ! j"
    using assms by cases (simp_all add: nth_append)
qed

lemma length_concat_triples:
  "(\<And>i. length (f i) = 3) \<Longrightarrow> length (concat (map f [0..<n])) = 3 * n"
  by (induction n) simp_all

lemma nth_concat_triples:
  assumes "\<And>i. length (f i) = 3" and "i < n" and "j < 3"
  shows "concat (map f [0..<n]) ! (3 * i + j) = f i ! j"
  using assms(2)
proof (induction n)
  case 0
  then show ?case by simp
next
  case (Suc n)
  have len: "length (concat (map f [0..<n])) = 3 * n"
    using assms(1) by (rule length_concat_triples)
  show ?case
  proof (cases "i < n")
    case True
    then have "3 * i + j < 3 * n" using assms(3) by linarith
    with True Suc.IH len show ?thesis
      by (simp add: nth_append)
  next
    case False
    with Suc.prems have "i = n" by simp
    with len assms(3) show ?thesis
      by (simp add: nth_append)
  qed
qed

subsection \<open>The planar loop\<close>

lemma deinterleave_loop_planes:
  assumes "length src = 3 * n" and "length rgb = 3 * n" and "i \<le> n"
  shows "deinterleave_loop src (real n) i (3 * i) (real i) (real (n + i)) (real (2 * n + i)) rgb
         = take (3 * i) rgb @
           concat (map (\<lambda>j. [src ! j, src ! (n + j), src ! (2 * n + j)]) [i..<n])"
  using assms
proof (induction "n - i" arbitrary: i rgb)
  case 0
  then have "i = n" by simp
  with 0 show ?case
    by (simp add: deinterleave_loop.simps)
next
  case (Suc d)
  then have lt: "i < n" by linarith
  let ?rgb = "rgb[3 * i := src ! i, 3 * i + 1 := src ! (n + i), 3 * i + 2 := src ! (2 * n + i)]"
  have step: "deinterleave_loop src (real n) i (3 * i) (real i) (real (n + i)) (real (2 * n + i)) rgb
      = deinterleave_loop src (real n) (Suc i) (3 * Suc i) (real (Suc i)) (real (n + Suc i))
          (real (2 * n + Suc i)) ?rgb"
  proof -
    have c1: "copied src (real i) = src ! i"
      using lt Suc.prems by (intro copied_nat) simp
    have c2: "copied src (real (n + i)) = src ! (n + i)"
      using lt Suc.prems by (intro copied_nat) simp
    have c3: "copied src (real (2 * n + i)) = src ! (2 * n + i)"
      using lt Suc.prems by (intro copied_nat) simp
    have a: "real i + 1 = real (Suc i)" "real (n + i) + 1 = real (n + Suc i)"
      "real (2 * n + i) + 1 = real (2 * n + Suc i)" "3 * i + 3 = 3 * Suc i" "i + 1 = Suc i"
      by simp_all
    show ?thesis
      by (subst deinterleave_loop.simps) (simp only: c1 c2 c3 a lt of_nat_less_iff if_True)
  qed
  have ih: "deinterleave_loop src (real n) (Suc i) (3 * Suc i) (real (Suc i)) (real (n + Suc i))
          (real (2 * n + Suc i)) ?rgb
      = take (3 * Suc i) ?rgb @
        concat (map (\<lambda>j. [src ! j, src ! (n + j), src ! (2 * n + j)]) [Suc i..<n])"
    using Suc.hyps(2) Suc.prems lt by (intro Suc.hyps(1)) simp_all
  have tk: "take (3 * Suc i) ?rgb = take (3 * i) rgb @ [src ! i, src ! (n + i), src ! (2 * n + i)]"
  proof -
    have "3 * i + 3 \<le> length rgb"
      using Suc.prems lt by simp
    from take_three_updates [OF this]
    have "take (3 * i + 3) ?rgb = take (3 * i) rgb @ [src ! i, src ! (n + i), src ! (2 * n + i)]" .
    moreover have "3 * Suc i = 3 * i + 3"
      by simp
    ultimately show ?thesis
      by (simp only:)
  qed
  have cons: "[i..<n] = i # [Suc i..<n]"
    using lt by (simp add: upt_conv_Cons)
  show ?case
    unfolding step ih tk cons by simp
qed

lemma deinterleave_eq_pixelMajor:
  assumes "3 dvd length xs"
  shows "deinterleave xs = pixelMajor xs"
proof -
  from assms obtain n where n: "length xs = 3 * n" by (auto simp: dvd_def)
  have "deinterleave xs =
        deinterleave_loop xs (real n) 0 (3 * 0) (real 0) (real (n + 0)) (real (2 * n + 0))
          (replicate (3 * n) 0)"
    by (simp add: deinterleave_def n Let_def mult.commute)
  also have "\<dots> = take (3 * 0) (replicate (3 * n) 0) @
        concat (map (\<lambda>j. [xs ! j, xs ! (n + j), xs ! (2 * n + j)]) [0..<n])"
    by (rule deinterleave_loop_planes) (simp_all add: n)
  finally show ?thesis
    by (simp add: pixelMajor_def n)
qed

lemma length_pixelMajor: "3 dvd length xs \<Longrightarrow> length (pixelMajor xs) = length xs"
  by (auto simp: pixelMajor_def Let_def length_concat sum_list_triv comp_def)

lemma pixelMajor_nth:
  assumes "3 dvd length xs" and "i < length xs div 3"
  shows "pixelMajor xs ! (3 * i) = xs ! i"
    and "pixelMajor xs ! (3 * i + 1) = xs ! (length xs div 3 + i)"
    and "pixelMajor xs ! (3 * i + 2) = xs ! (2 * (length xs div 3) + i)"
proof -
  let ?n = "length xs div 3"
  let ?f = "\<lambda>i. [xs ! i, xs ! (?n + i), xs ! (2 * ?n + i)]"
  have pm: "pixelMajor xs = concat (map ?f [0..<?n])"
    by (simp add: pixelMajor_def Let_def)
  have l: "\<And>i. length (?f i) = 3" by simp
  from nth_concat_triples [of ?f i ?n 0, OF l assms(2)]
  show "pixelMajor xs ! (3 * i) = xs ! i" by (simp add: pm)
  from nth_concat_triples [of ?f i ?n 1, OF l assms(2)]
  show "pixelMajor xs ! (3 * i + 1) = xs ! (?n + i)" by (simp add: pm)
  from nth_concat_triples [of ?f i ?n 2, OF l assms(2)]
  show "pixelMajor xs ! (3 * i + 2) = xs ! (2 * ?n + i)" by (simp add: pm)
qed

lemma convert_planar:
  assumes "photometricInterpretation ds = Some p" and "p \<in> set rgbLike"
    and "planarConfiguration ds = Some (Num 1)"
  shows "convertColorSpace ds a =
     (case a of
        Int8Array xs \<Rightarrow> Inr (Int8Array (deinterleave xs))
      | Uint8Array xs \<Rightarrow> Inr (Uint8Array (deinterleave xs))
      | Int16Array xs \<Rightarrow> Inr (Int16Array (deinterleave xs))
      | Uint16Array xs \<Rightarrow> Inr (Uint16Array (deinterleave xs))
      | _ \<Rightarrow> Inl UnsupportedTypedArray)"
proof -
  from assms(2) have ne: "p \<noteq> []" by (auto simp: rgbLike_def)
  from assms(2) have rgb: "interpretAsRGB p" by (simp add: interpretAsRGB_def rgbLike_def)
  show ?thesis
    by (simp add: convertColorSpace_def assms(1,3) ne rgb)
qed

subsection \<open>The YBR_FULL loop\<close>

lemma sample_in: "k < length xs \<Longrightarrow> sample s xs k = Num (sampleValue s (xs ! k))"
  by (simp add: sample_def)

lemma sample_out: "length xs \<le> k \<Longrightarrow> sample s xs k = NaN"
  by (simp add: sample_def)

lemma zero_tail_updates:
  fixes ys :: "'a::len word list"
  assumes z: "drop k ys = replicate (length ys - k) 0" and short: "length ys \<le> k + 2"
  shows "ys[k := 0, k + 1 := 0, k + 2 := c] = ys"
proof (rule nth_equalityI)
  show "length (ys[k := 0, k + 1 := 0, k + 2 := c]) = length ys"
    by simp
next
  fix j
  assume "j < length (ys[k := 0, k + 1 := 0, k + 2 := c])"
  then have j: "j < length ys" by simp
  have zero: "ys ! j = 0" if "k \<le> j"
  proof -
    from that j have "ys ! j = drop k ys ! (j - k)"
      by simp
    also have "\<dots> = 0"
      using that j by (simp only: z) simp
    finally show ?thesis .
  qed
  consider "j < k" | "j = k" | "j = k + 1"
    using j short by linarith
  then show "ys[k := 0, k + 1 := 0, k + 2 := c] ! j = ys ! j"
    using j zero by cases (simp_all add: nth_list_update)
qed

text \<open>
  After the last whole pixel the loop runs once more when the length is not a multiple of
  three; that round reads past the end, so it writes \<open>0\<close> over \<open>0\<close> or nothing at all.
\<close>

lemma ybr_loop_tail:
  fixes src rgb :: "'a::len word list"
  assumes "length src = len" and "length rgb = len"
    and z: "drop (3 * (len div 3)) rgb = replicate (len - 3 * (len div 3)) 0"
  shows "ybr_loop s src (real len / 3) (len div 3) (3 * (len div 3)) (3 * (len div 3)) rgb = rgb"
proof (cases "len mod 3 = 0")
  case True
  then have "len = 3 * (len div 3)" by presburger
  then have "\<not> real (len div 3) < real len / 3"
    by (metis nonzero_mult_div_cancel_left of_nat_mult of_nat_numeral order_less_irrefl
        zero_neq_numeral)
  then show ?thesis
    by (subst ybr_loop.simps) simp
next
  case False
  let ?m = "len div 3"
  have lt: "3 * ?m < len" and le: "len \<le> 3 * ?m + 2"
    using False by presburger+
  have c1: "real ?m < real len / 3"
    using lt by (simp add: less_divide_eq)
  have c2: "\<not> real (?m + 1) < real len / 3"
  proof -
    have "len < 3 * (?m + 1)" using le by simp
    then have "real len < real (3 * (?m + 1))"
      by (simp only: of_nat_less_iff)
    then show ?thesis by (simp add: less_divide_eq)
  qed
  have cr: "sample s src (3 * ?m + 2) = NaN"
    using le assms by (intro sample_out) simp
  have same: "rgb[3 * ?m := 0, 3 * ?m + 1 := 0, 3 * ?m + 2 := c] = rgb" for c
    using z le assms by (intro zero_tail_updates) simp_all
  have nan: "num_sub NaN (Num 128) = NaN" "num_mul a NaN = NaN" "num_add a NaN = NaN"
    "num_sub a NaN = NaN" "to_element NaN = (0 :: 'a word)" for a
    by (cases a; simp)+
  show ?thesis
    apply (subst ybr_loop.simps)
    apply (simp only: c1 if_True Let_def cr)
    apply (subst ybr_loop.simps)
    apply (simp only: c2 if_False nan same)
    done
qed

lemma ybr_loop_pixels:
  fixes src rgb :: "'a::len word list"
  assumes "length src = len" and "length rgb = len" and "i \<le> len div 3"
    and "drop (3 * i) rgb = replicate (len - 3 * i) 0"
  shows "ybr_loop s src (real len / 3) i (3 * i) (3 * i) rgb
         = take (3 * i) rgb @ concat (map (rgbPixel s src) [i..<len div 3])
           @ replicate (len mod 3) 0"
  using assms
proof (induction "len div 3 - i" arbitrary: i rgb)
  case 0
  then have i: "i = len div 3" by simp
  have "ybr_loop s src (real len / 3) i (3 * i) (3 * i) rgb = rgb"
    unfolding i using 0(2,3,5) unfolding i by (rule ybr_loop_tail)
  moreover have "len - 3 * i = len mod 3"
    unfolding i by presburger
  then have "drop (3 * i) rgb = replicate (len mod 3) 0"
    using 0(5) by simp
  then have "take (3 * i) rgb @ replicate (len mod 3) 0 = rgb"
    by (metis append_take_drop_id)
  ultimately show ?case
    using i by simp
next
  case (Suc d)
  then have lt: "i < len div 3" by linarith
  then have in3: "3 * i + 2 < len" by presburger
  let ?y = "sampleValue s (src ! (3 * i))"
  let ?cb = "sampleValue s (src ! (3 * i + 1))"
  let ?cr = "sampleValue s (src ! (3 * i + 2))"
  let ?r = "word_of_int (truncate
              (double_add ?y (double_mul (binary64 1.402) (double_sub ?cr 128)))) :: 'a word"
  let ?g = "word_of_int (truncate
              (double_sub (double_sub ?y (double_mul (binary64 0.34414) (double_sub ?cb 128)))
                 (double_mul (binary64 0.71414) (double_sub ?cr 128)))) :: 'a word"
  let ?b = "word_of_int (truncate
              (double_add ?y (double_mul (binary64 1.772) (double_sub ?cb 128)))) :: 'a word"
  let ?rgb = "rgb[3 * i := ?r, 3 * i + 1 := ?g, 3 * i + 2 := ?b]"
  have p: "rgbPixel s src i = [?r, ?g, ?b]"
    by (simp only: rgbPixel_def ybrToRgb_def list.map)
  have c: "real i < real len / 3"
    using in3 by (simp add: less_divide_eq)
  have y: "sample s src (3 * i) = Num (sampleValue s (src ! (3 * i)))"
    and cb: "sample s src (3 * i + 1) = Num (sampleValue s (src ! (3 * i + 1)))"
    and cr: "sample s src (3 * i + 2) = Num (sampleValue s (src ! (3 * i + 2)))"
    using in3 Suc.prems(1) by (simp_all add: sample_in)
  have step: "ybr_loop s src (real len / 3) i (3 * i) (3 * i) rgb
      = ybr_loop s src (real len / 3) (Suc i) (3 * Suc i) (3 * Suc i) ?rgb"
  proof -
    have a: "3 * i + 3 = 3 * Suc i" "i + 1 = Suc i"
      by simp_all
    show ?thesis
      by (subst ybr_loop.simps)
         (simp only: c if_True Let_def y cb cr a num_add.simps num_sub.simps num_mul.simps
            to_element.simps)
  qed
  have dr: "drop (3 * Suc i) ?rgb = replicate (len - 3 * Suc i) 0"
  proof -
    have "drop (3 * Suc i) ?rgb = drop 3 (drop (3 * i) rgb)"
      by (simp add: add.commute)
    also have "\<dots> = replicate (len - 3 * Suc i) 0"
      by (simp only: Suc.prems(4)) simp
    finally show ?thesis .
  qed
  have ih: "ybr_loop s src (real len / 3) (Suc i) (3 * Suc i) (3 * Suc i) ?rgb
      = take (3 * Suc i) ?rgb @ concat (map (rgbPixel s src) [Suc i..<len div 3])
        @ replicate (len mod 3) 0"
  proof (rule Suc.hyps(1))
    show "d = len div 3 - Suc i" using Suc.hyps(2) by simp
    show "length src = len" by (rule Suc.prems(1))
    show "length ?rgb = len" using Suc.prems(2) by simp
    show "Suc i \<le> len div 3" using lt by simp
    show "drop (3 * Suc i) ?rgb = replicate (len - 3 * Suc i) 0" by (rule dr)
  qed
  have tk: "take (3 * Suc i) ?rgb = take (3 * i) rgb @ rgbPixel s src i"
  proof -
    have "3 * i + 3 \<le> length rgb"
      using Suc.prems(2) in3 by simp
    from take_three_updates [OF this]
    have "take (3 * i + 3) ?rgb = take (3 * i) rgb @ [?r, ?g, ?b]" .
    moreover have "3 * Suc i = 3 * i + 3"
      by simp
    ultimately show ?thesis
      by (simp only: p)
  qed
  have cons: "[i..<len div 3] = i # [Suc i..<len div 3]"
    using lt by (simp add: upt_conv_Cons)
  show ?case
    unfolding step ih tk cons by simp
qed

lemma ybr_full_eq_rgbOfYbr: "ybr_full s xs = rgbOfYbr s xs"
proof -
  have "ybr_loop s xs (real (length xs) / 3) 0 (3 * 0) (3 * 0) (replicate (length xs) 0)
        = take (3 * 0) (replicate (length xs) 0)
          @ concat (map (rgbPixel s xs) [0..<length xs div 3])
          @ replicate (length xs mod 3) 0"
    by (rule ybr_loop_pixels) simp_all
  then show ?thesis
    by (simp add: ybr_full_def rgbOfYbr_def Let_def)
qed

lemma length_ybrToRgb: "length (ybrToRgb y cb cr) = 3"
  by (simp add: ybrToRgb_def)

lemma length_rgbPixel: "length (rgbPixel s xs i) = 3"
  by (simp add: rgbPixel_def length_ybrToRgb)

lemma length_rgbOfYbr: "length (rgbOfYbr s xs) = length xs"
proof -
  have "length (concat (map (rgbPixel s xs) [0..<length xs div 3])) = 3 * (length xs div 3)"
    by (rule length_concat_triples) (rule length_rgbPixel)
  then show ?thesis
    by (simp add: rgbOfYbr_def)
qed

lemma rgbOfYbr_nth:
  assumes "i < length xs div 3" and "j < 3"
  shows "rgbOfYbr s xs ! (3 * i + j) = rgbPixel s xs i ! j"
proof -
  have len: "length (concat (map (rgbPixel s xs) [0..<length xs div 3])) = 3 * (length xs div 3)"
    by (rule length_concat_triples) (rule length_rgbPixel)
  have "3 * i + j < 3 * (length xs div 3)"
    using assms by linarith
  then have "rgbOfYbr s xs ! (3 * i + j)
      = concat (map (rgbPixel s xs) [0..<length xs div 3]) ! (3 * i + j)"
    by (simp add: rgbOfYbr_def nth_append len)
  also have "\<dots> = rgbPixel s xs i ! j"
    using assms by (intro nth_concat_triples length_rgbPixel)
  finally show ?thesis .
qed

lemma truncate_of_int: "truncate (real_of_int k) = k"
  by (simp add: truncate_def)

lemma store_sampleValue: "word_of_int (truncate (sampleValue s w)) = w"
  by (simp add: sampleValue_def truncate_of_int)

lemma rgbPixel_neutral:
  fixes xs :: "'a::len word list"
  assumes "LENGTH('a) \<le> 53"
    and "sampleValue s (xs ! (3 * i + 1)) = 128" and "sampleValue s (xs ! (3 * i + 2)) = 128"
  shows "rgbPixel s xs i = [xs ! (3 * i), xs ! (3 * i), xs ! (3 * i)]"
proof -
  let ?y = "sampleValue s (xs ! (3 * i))"
  have y: "binary64 ?y = ?y"
    using assms(1) by (rule binary64_sampleValue)
  have "ybrToRgb ?y 128 128 = [?y, ?y, ?y]"
    by (simp add: ybrToRgb_def double_add_def double_sub_def double_mul_def binary64_zero y)
  then show ?thesis
    unfolding rgbPixel_def assms(2,3) by (simp add: store_sampleValue)
qed

lemma convert_ybr:
  assumes "photometricInterpretation ds = Some ''YBR_FULL''"
  shows "convertColorSpace ds a =
     (case a of
        Int8Array xs \<Rightarrow> Inr (Int8Array (ybr_full True xs))
      | Uint8Array xs \<Rightarrow> Inr (Uint8Array (ybr_full False xs))
      | Int16Array xs \<Rightarrow> Inr (Int16Array (ybr_full True xs))
      | Uint16Array xs \<Rightarrow> Inr (Uint16Array (ybr_full False xs))
      | _ \<Rightarrow> Inl UnsupportedTypedArray)"
proof -
  have "\<not> interpretAsRGB ''YBR_FULL''" by (simp add: interpretAsRGB_def)
  then show ?thesis
    by (simp add: convertColorSpace_def assms)
qed

subsection \<open>The two conversions\<close>

text \<open>
  C8, as the code has it. For samples in an Int8Array, Uint8Array, Int16Array or Uint16Array
  of length \<open>3n\<close>, with an RGB-like photometric interpretation and planar configuration 1,
  the conversion returns an array of the same type and length whose pixel \<open>i\<close> is
  \<open>plane0[i], plane1[i], plane2[i]\<close>. For every other type of array it fails.
\<close>

theorem planar_to_interleaved:
  "(photometricInterpretation ds = Some p \<and> p \<in> set rgbLike \<and>
    planarConfiguration ds = Some (Num 1) \<and> arrayLength a = 3 * n \<longrightarrow>
    convertColorSpace ds a =
      (case a of
         Int8Array xs \<Rightarrow> Inr (Int8Array (pixelMajor xs))
       | Uint8Array xs \<Rightarrow> Inr (Uint8Array (pixelMajor xs))
       | Int16Array xs \<Rightarrow> Inr (Int16Array (pixelMajor xs))
       | Uint16Array xs \<Rightarrow> Inr (Uint16Array (pixelMajor xs))
       | _ \<Rightarrow> Inl UnsupportedTypedArray))
   \<and> (length ys = 3 * n \<longrightarrow>
        length (pixelMajor ys) = 3 * n \<and>
        (\<forall>i < n.
           pixelMajor ys ! (3 * i) = ys ! i \<and>
           pixelMajor ys ! (3 * i + 1) = ys ! (n + i) \<and>
           pixelMajor ys ! (3 * i + 2) = ys ! (2 * n + i)))"
proof (intro conjI impI)
  assume a: "photometricInterpretation ds = Some p \<and> p \<in> set rgbLike \<and>
    planarConfiguration ds = Some (Num 1) \<and> arrayLength a = 3 * n"
  with convert_planar [of ds p a]
  have c: "convertColorSpace ds a =
     (case a of
        Int8Array xs \<Rightarrow> Inr (Int8Array (deinterleave xs))
      | Uint8Array xs \<Rightarrow> Inr (Uint8Array (deinterleave xs))
      | Int16Array xs \<Rightarrow> Inr (Int16Array (deinterleave xs))
      | Uint16Array xs \<Rightarrow> Inr (Uint16Array (deinterleave xs))
      | _ \<Rightarrow> Inl UnsupportedTypedArray)"
    by blast
  from a have d: "3 dvd arrayLength a" by simp
  show "convertColorSpace ds a =
      (case a of
         Int8Array xs \<Rightarrow> Inr (Int8Array (pixelMajor xs))
       | Uint8Array xs \<Rightarrow> Inr (Uint8Array (pixelMajor xs))
       | Int16Array xs \<Rightarrow> Inr (Int16Array (pixelMajor xs))
       | Uint16Array xs \<Rightarrow> Inr (Uint16Array (pixelMajor xs))
       | _ \<Rightarrow> Inl UnsupportedTypedArray)"
    using d c by (cases a) (simp_all add: arrayLength_def deinterleave_eq_pixelMajor)
next
  assume "length ys = 3 * n"
  then show "length (pixelMajor ys) = 3 * n"
    using length_pixelMajor [of ys] by simp
next
  assume l: "length ys = 3 * n"
  then have d: "3 dvd length ys" and n: "length ys div 3 = n"
    by simp_all
  show "\<forall>i < n.
           pixelMajor ys ! (3 * i) = ys ! i \<and>
           pixelMajor ys ! (3 * i + 1) = ys ! (n + i) \<and>
           pixelMajor ys ! (3 * i + 2) = ys ! (2 * n + i)"
    using pixelMajor_nth [OF d] unfolding n by blast
qed

text \<open>
  Witness for C8: two pixels stored as \<open>R0 R1 G0 G1 B0 B1 = 1 2 3 4 5 6\<close> come out as
  \<open>1 3 5 2 4 6\<close>.
\<close>

theorem planar_to_interleaved_example:
  "convertColorSpace planarRgbDataSet (Uint8Array [1, 2, 3, 4, 5, 6])
     = Inr (Uint8Array [1, 3, 5, 2, 4, 6])
   \<and> pixelMajor [1, 2, 3, 4, 5, 6 :: 8 word] ! (3 * 1 + 1) = [1, 2, 3, 4, 5, 6] ! (2 + 1)"
proof -
  have h: "photometricInterpretation planarRgbDataSet = Some ''RGB'' \<and>
    ''RGB'' \<in> set rgbLike \<and>
    planarConfiguration planarRgbDataSet = Some (Num 1) \<and>
    arrayLength (Uint8Array [1, 2, 3, 4, 5, 6]) = 3 * 2"
    by (simp add: planarRgbDataSet_def imageDataSet_def photometricInterpretation_def
          planarConfiguration_def arrayLength_def rgbLike_def)
  have l: "length [1, 2, 3, 4, 5, 6 :: 8 word] = 3 * 2"
    by simp
  have v: "pixelMajor [1, 2, 3, 4, 5, 6 :: 8 word] = [1, 3, 5, 2, 4, 6]"
    by (simp add: pixelMajor_def upt_rec)
  note t = planar_to_interleaved
             [of planarRgbDataSet "''RGB''" "Uint8Array [1, 2, 3, 4, 5, 6]" 2
                 "[1, 2, 3, 4, 5, 6 :: 8 word]"]
  from t h have "convertColorSpace planarRgbDataSet (Uint8Array [1, 2, 3, 4, 5, 6])
     = (case Uint8Array [1, 2, 3, 4, 5, 6] of
         Int8Array xs \<Rightarrow> Inr (Int8Array (pixelMajor xs))
       | Uint8Array xs \<Rightarrow> Inr (Uint8Array (pixelMajor xs))
       | Int16Array xs \<Rightarrow> Inr (Int16Array (pixelMajor xs))
       | Uint16Array xs \<Rightarrow> Inr (Uint16Array (pixelMajor xs))
       | _ \<Rightarrow> Inl UnsupportedTypedArray)"
    by blast
  then have 1: "convertColorSpace planarRgbDataSet (Uint8Array [1, 2, 3, 4, 5, 6])
     = Inr (Uint8Array [1, 3, 5, 2, 4, 6])"
    by (simp add: v)
  from t l have q: "\<forall>i < 2. pixelMajor [1, 2, 3, 4, 5, 6 :: 8 word] ! (3 * i + 1)
      = [1, 2, 3, 4, 5, 6] ! (2 + i)"
    by blast
  from q [rule_format, of 1]
  have 2: "pixelMajor [1, 2, 3, 4, 5, 6 :: 8 word] ! (3 * 1 + 1) = [1, 2, 3, 4, 5, 6] ! (2 + 1)"
    by simp
  from 1 2 show ?thesis by (rule conjI)
qed

text \<open>C8 as stated fails: planar RGB samples in an Int32Array are refused.\<close>

theorem planar_int32_unsupported:
  "photometricInterpretation planarRgbDataSet = Some ''RGB''
   \<and> planarConfiguration planarRgbDataSet = Some (Num 1)
   \<and> convertColorSpace planarRgbDataSet (Int32Array [1, 2, 3, 4, 5, 6])
       = Inl UnsupportedTypedArray"
  by (simp add: convertColorSpace_def planarRgbDataSet_def imageDataSet_def
        photometricInterpretation_def planarConfiguration_def interpretAsRGB_def)

text \<open>
  C7, as the code has it. With photometric interpretation YBR_FULL and samples in an
  Int8Array, Uint8Array, Int16Array or Uint16Array, the conversion returns an array of the
  same type and length; each sample of a whole pixel is the value of
  \<open>Y + 1.402 (Cr - 128)\<close>, \<open>Y - 0.34414 (Cb - 128) - 0.71414 (Cr - 128)\<close>,
  \<open>Y + 1.772 (Cb - 128)\<close>, computed in double precision, with its fraction dropped and wrapped
  to the width of the element. A pixel with \<open>Cb = Cr = 128\<close> comes out as \<open>Y, Y, Y\<close>. For
  every other type of array the conversion fails.
\<close>

theorem ybr_full_conversion:
  fixes ys :: "'a::len word list"
  shows
  "(photometricInterpretation ds = Some ''YBR_FULL'' \<longrightarrow>
    convertColorSpace ds a =
      (case a of
         Int8Array xs \<Rightarrow> Inr (Int8Array (rgbOfYbr True xs))
       | Uint8Array xs \<Rightarrow> Inr (Uint8Array (rgbOfYbr False xs))
       | Int16Array xs \<Rightarrow> Inr (Int16Array (rgbOfYbr True xs))
       | Uint16Array xs \<Rightarrow> Inr (Uint16Array (rgbOfYbr False xs))
       | _ \<Rightarrow> Inl UnsupportedTypedArray))
   \<and> length (rgbOfYbr s ys) = length ys
   \<and> (\<forall>i < length ys div 3. \<forall>j < 3.
         rgbOfYbr s ys ! (3 * i + j) =
           word_of_int (truncate
             (ybrToRgb (sampleValue s (ys ! (3 * i))) (sampleValue s (ys ! (3 * i + 1)))
                       (sampleValue s (ys ! (3 * i + 2))) ! j)))
   \<and> (LENGTH('a) \<le> 53 \<longrightarrow>
        (\<forall>i < length ys div 3.
           sampleValue s (ys ! (3 * i + 1)) = 128 \<and> sampleValue s (ys ! (3 * i + 2)) = 128 \<longrightarrow>
           (\<forall>j < 3. rgbOfYbr s ys ! (3 * i + j) = ys ! (3 * i))))"
proof (intro conjI impI allI)
  assume "photometricInterpretation ds = Some ''YBR_FULL''"
  from convert_ybr [OF this, of a]
  have c: "convertColorSpace ds a =
     (case a of
        Int8Array xs \<Rightarrow> Inr (Int8Array (ybr_full True xs))
      | Uint8Array xs \<Rightarrow> Inr (Uint8Array (ybr_full False xs))
      | Int16Array xs \<Rightarrow> Inr (Int16Array (ybr_full True xs))
      | Uint16Array xs \<Rightarrow> Inr (Uint16Array (ybr_full False xs))
      | _ \<Rightarrow> Inl UnsupportedTypedArray)" .
  show "convertColorSpace ds a =
      (case a of
         Int8Array xs \<Rightarrow> Inr (Int8Array (rgbOfYbr True xs))
       | Uint8Array xs \<Rightarrow> Inr (Uint8Array (rgbOfYbr False xs))
       | Int16Array xs \<Rightarrow> Inr (Int16Array (rgbOfYbr True xs))
       | Uint16Array xs \<Rightarrow> Inr (Uint16Array (rgbOfYbr False xs))
       | _ \<Rightarrow> Inl UnsupportedTypedArray)"
    using c by (cases a) (simp_all add: ybr_full_eq_rgbOfYbr)
next
  show "length (rgbOfYbr s ys) = length ys"
    by (rule length_rgbOfYbr)
next
  fix i j :: nat
  assume i: "i < length ys div 3" and j: "j < 3"
  have "rgbOfYbr s ys ! (3 * i + j) = rgbPixel s ys i ! j"
    using i j by (rule rgbOfYbr_nth)
  also have "\<dots> = word_of_int (truncate
             (ybrToRgb (sampleValue s (ys ! (3 * i))) (sampleValue s (ys ! (3 * i + 1)))
                       (sampleValue s (ys ! (3 * i + 2))) ! j))"
    using j by (simp add: rgbPixel_def length_ybrToRgb)
  finally show "rgbOfYbr s ys ! (3 * i + j) =
           word_of_int (truncate
             (ybrToRgb (sampleValue s (ys ! (3 * i))) (sampleValue s (ys ! (3 * i + 1)))
                       (sampleValue s (ys ! (3 * i + 2))) ! j))" .
next
  fix i j :: nat
  assume w: "LENGTH('a) \<le> 53" and i: "i < length ys div 3" and j: "j < 3"
    and n: "sampleValue s (ys ! (3 * i + 1)) = 128 \<and> sampleValue s (ys ! (3 * i + 2)) = 128"
  have "rgbOfYbr s ys ! (3 * i + j) = rgbPixel s ys i ! j"
    using i j by (rule rgbOfYbr_nth)
  also have "rgbPixel s ys i = [ys ! (3 * i), ys ! (3 * i), ys ! (3 * i)]"
    using w n by (intro rgbPixel_neutral) simp_all
  also have "[ys ! (3 * i), ys ! (3 * i), ys ! (3 * i)] ! j = ys ! (3 * i)"
    using j by (cases j rule: nat.exhaust) (auto simp: nth_Cons split: nat.splits)
  finally show "rgbOfYbr s ys ! (3 * i + j) = ys ! (3 * i)" .
qed

lemma rgbOfYbr_neutral: "rgbOfYbr False [128, 128, 128 :: 8 word] = [128, 128, 128]"
  by code_simp

lemma rgbOfYbr_cr129: "rgbOfYbr False [128, 128, 129 :: 8 word] = [129, 127, 128]"
  by code_simp

lemma rgbOfYbr_rounded: "rgbOfYbr False [100, 28, 228 :: 8 word] = [240, 62, 179]"
  by code_simp

text \<open>
  Witness for C7: neutral gray stays neutral gray. For \<open>Y = 100, Cb = 28, Cr = 228\<close> the
  green formula is \<open>63\<close> in exact arithmetic and just below \<open>63\<close> in doubles, and the array
  holds \<open>62\<close>.
\<close>

theorem ybr_full_conversion_example:
  "convertColorSpace ybrFullDataSet (Uint8Array [128, 128, 128])
     = Inr (Uint8Array [128, 128, 128])
   \<and> rgbOfYbr False [128, 128, 128 :: 8 word] ! 0 = 128
   \<and> rgbOfYbr False [128, 128, 128 :: 8 word] ! 1 = 128
   \<and> rgbOfYbr False [128, 128, 128 :: 8 word] ! 2 = 128
   \<and> convertColorSpace ybrFullDataSet (Uint8Array [100, 28, 228])
       = Inr (Uint8Array [240, 62, 179])
   \<and> ybrToRgbExact 100 28 228 = [240.2, 63, - 77.2]"
proof -
  let ?xs = "[128, 128, 128 :: 8 word]"
  let ?zs = "[100, 28, 228 :: 8 word]"
  note t = ybr_full_conversion [of ybrFullDataSet "Uint8Array ?xs" False ?xs]
  note r = ybr_full_conversion [of ybrFullDataSet "Uint8Array ?zs" False ?zs]
  have h: "photometricInterpretation ybrFullDataSet = Some ''YBR_FULL''"
    by (simp add: ybrFullDataSet_def imageDataSet_def photometricInterpretation_def)
  have n: "sampleValue False (?xs ! (3 * 0 + 1)) = 128 \<and> sampleValue False (?xs ! (3 * 0 + 2)) = 128"
    by (simp add: sampleValue_def)
  have i: "(0 :: nat) < length ?xs div 3"
    by simp
  have w: "LENGTH(8) \<le> 53"
    by simp
  from t w n i have q: "\<forall>j < 3. rgbOfYbr False ?xs ! (3 * 0 + j) = ?xs ! (3 * 0)"
    by blast
  from q [rule_format, of 0] have 0: "rgbOfYbr False ?xs ! 0 = 128" by simp
  from q [rule_format, of 1] have 1: "rgbOfYbr False ?xs ! 1 = 128" by simp
  from q [rule_format, of 2] have 2: "rgbOfYbr False ?xs ! 2 = 128"
    by (simp add: numeral_2_eq_2)
  from t h have "convertColorSpace ybrFullDataSet (Uint8Array ?xs) =
      (case Uint8Array ?xs of
         Int8Array xs \<Rightarrow> Inr (Int8Array (rgbOfYbr True xs))
       | Uint8Array xs \<Rightarrow> Inr (Uint8Array (rgbOfYbr False xs))
       | Int16Array xs \<Rightarrow> Inr (Int16Array (rgbOfYbr True xs))
       | Uint16Array xs \<Rightarrow> Inr (Uint16Array (rgbOfYbr False xs))
       | _ \<Rightarrow> Inl UnsupportedTypedArray)"
    by blast
  then have c: "convertColorSpace ybrFullDataSet (Uint8Array ?xs) = Inr (Uint8Array [128, 128, 128])"
    by (simp add: rgbOfYbr_neutral)
  from r h have "convertColorSpace ybrFullDataSet (Uint8Array ?zs) =
      (case Uint8Array ?zs of
         Int8Array xs \<Rightarrow> Inr (Int8Array (rgbOfYbr True xs))
       | Uint8Array xs \<Rightarrow> Inr (Uint8Array (rgbOfYbr False xs))
       | Int16Array xs \<Rightarrow> Inr (Int16Array (rgbOfYbr True xs))
       | Uint16Array xs \<Rightarrow> Inr (Uint16Array (rgbOfYbr False xs))
       | _ \<Rightarrow> Inl UnsupportedTypedArray)"
    by blast
  then have d: "convertColorSpace ybrFullDataSet (Uint8Array ?zs) = Inr (Uint8Array [240, 62, 179])"
    by (simp add: rgbOfYbr_rounded)
  have e: "ybrToRgbExact 100 28 228 = [240.2, 63, - 77.2]"
    by (simp add: ybrToRgbExact_def)
  from c 0 1 2 d e show ?thesis by simp
qed

text \<open>
  C7 as stated fails: for \<open>Y = 128, Cb = 128, Cr = 129\<close> the formulas give
  \<open>129.402, 127.28586, 128\<close> (and doubles next to them when computed in double precision),
  and the array that comes out holds \<open>129, 127, 128\<close>.
\<close>

theorem ybr_full_stores_whole_numbers:
  "convertColorSpace ybrFullDataSet (Uint8Array [128, 128, 129])
     = Inr (Uint8Array [129, 127, 128])
   \<and> ybrToRgbExact 128 128 129 = [129.402, 127.28586, 128]
   \<and> ybrToRgb 128 128 129
       = [2276464058519519 / 17592186044416, 8956946119773955 / 70368744177664, 128]
   \<and> real_of_int (uint (129 :: 8 word)) \<noteq> 129.402
   \<and> real_of_int (uint (129 :: 8 word)) \<noteq> 2276464058519519 / 17592186044416"
proof -
  have a: "convertColorSpace ybrFullDataSet (Uint8Array [128, 128, 129])
     = Inr (Uint8Array [129, 127, 128])"
    by (simp add: convert_ybr ybrFullDataSet_def imageDataSet_def photometricInterpretation_def
          ybr_full_eq_rgbOfYbr rgbOfYbr_cr129)
  have b: "ybrToRgbExact 128 128 129 = [129.402, 127.28586, 128]"
    by (simp add: ybrToRgbExact_def)
  have c: "ybrToRgb 128 128 129
       = [2276464058519519 / 17592186044416, 8956946119773955 / 70368744177664, 128]"
    by code_simp
  have d: "real_of_int (uint (129 :: 8 word)) \<noteq> 129.402
   \<and> real_of_int (uint (129 :: 8 word)) \<noteq> 2276464058519519 / 17592186044416"
    by simp
  from a b c d show ?thesis by blast
qed

section \<open>Properties of the ordering\<close>







subsection \<open>The contract of the sort can be met\<close>



lemma positive_not_zero: "positive x \<Longrightarrow> x \<noteq> Num 0"
  by (cases x) auto

lemma negative_not_zero: "negative x \<Longrightarrow> x \<noteq> Num 0"
  by (cases x) auto















subsection \<open>Groups decided at one tier\<close>







end
